theory Spec2Isabelle
  imports Complex_Main
begin

section \<open>Data model (dist/types.d.ts)\<close>

text \<open>
  A JavaScript number is an IEEE 754 binary64 value. A finite one is the real number it
  denotes, and every arithmetic operation of cooking.js is the exact operation followed
  by rounding to the nearest binary64 value, ties to even (\<open>fl64\<close> below). The exponent
  range is taken to be unbounded: overflow to an infinity and gradual underflow are not
  modelled, so the operations agree with the source whenever the magnitudes stay in the
  normal range of binary64. The one place where the source divides by a value that can
  be zero without a guard (\<open>percentComplete\<close>) gets the type \<open>jsnum\<close> below, which
  carries the non-finite results of the division. Numeric arguments stand for binary64
  values. \<open>Math.round\<close> is \<open>round\<close> (\<open>\<lfloor>x + 1/2\<rfloor>\<close>, halves go up, as in
  JavaScript), \<open>Math.floor\<close> is \<open>\<lfloor>_\<rfloor>\<close>, and both are exact.
  A \<open>Date\<close> is its time value in milliseconds since the epoch (a valid Date).
\<close>

type_synonym Date = int

datatype TemperatureUnit = fahrenheit | celsius

datatype CookMethod =
  smoke_low_slow | smoke_hot_fast | grill_direct | grill_indirect
  | reverse_sear | spatchcock | rotisserie

datatype DonenessLevel =
  rare | medium_rare | medium | medium_well | well_done | pullable | usda_safe

datatype Category = beef | pork | poultry | lamb | seafood

datatype Confidence = High | Medium | Low

datatype Trend = Rising | Falling | Stable | Stalled

record StallRange =
  range_start :: real
  range_end :: real

record ProteinProfile =
  ptype :: string
  displayName :: string
  category :: Category
  usdaSafeTemp :: real
  requiresRest :: bool
  restTimeMinutes :: real
  carryoverDegrees :: real
  donenessTemps :: "(DonenessLevel \<times> real) list"
  recommendedMethods :: "CookMethod list"
  stallRange :: "StallRange option"
  estimatedTimePerPound :: "CookMethod \<Rightarrow> real"
  tips :: "string list"

text \<open>
  \<open>donenessTemps\<close> is a JavaScript object used as a partial map
  (\<open>Partial<Record<DonenessLevel, number>>\<close>): an association list in insertion
  order, which is the order \<open>Object.keys\<close> returns. \<open>estimatedTimePerPound\<close> is a
  \<open>Record<CookMethod, number>\<close>, total over the seven methods.
\<close>

record TemperatureReading =
  temp :: real
  timestamp :: Date

record MethodInfo =
  methodDisplayName :: string
  tempRange :: string
  description :: string

text \<open>
  The values of the tables live in dist/constants.js; dist/constants.d.ts declares what
  it exports, and that declaration is all this development relies on. The two numeric
  constants are declared with their values. The two tables are parameters of every
  operation: \<open>PROTEIN_PROFILES\<close> holds the own keys of the table object, and
  \<open>COOK_METHOD_INFO\<close> is a \<open>Record<CookMethod, _>\<close>.

  The host's time zone is a parameter as well: \<open>LocalTZA True t\<close> is the offset of
  local time from UTC, in milliseconds, at the UTC time value \<open>t\<close>, and
  \<open>LocalTZA False t\<close> the offset at the local time value \<open>t\<close> (the abstract operation
  LocalTZA of ECMAScript; daylight saving makes it depend on \<open>t\<close>).
\<close>

definition DEFAULT_SMOKER_TEMP :: real where
  "DEFAULT_SMOKER_TEMP = 225"

definition HOT_FAST_TEMP :: real where
  "HOT_FAST_TEMP = 300"

record Constants =
  PROTEIN_PROFILES :: "string \<rightharpoonup> ProteinProfile"
  COOK_METHOD_INFO :: "CookMethod \<Rightarrow> MethodInfo"

record Host = Constants +
  LocalTZA :: "bool \<Rightarrow> Date \<Rightarrow> int"

section \<open>Binary64 arithmetic\<close>

text \<open>
  \<open>rne\<close> rounds a real to the nearest integer, a tie to the even one. \<open>ulp x\<close> is the
  spacing of binary64 values around \<open>x\<close>: with \<open>2 ^ e \<le> |x| < 2 ^ (e + 1)\<close> it is
  \<open>2 ^ (e - 52)\<close>, so that \<open>x / ulp x\<close> has 53 significant bits before the point.
  \<open>fl64 x\<close> is the binary64 value nearest to \<open>x\<close>.
\<close>

definition rne :: "real \<Rightarrow> int" where
  "rne y =
     (let f = \<lfloor>y\<rfloor>; r = y - real_of_int f
      in if r < 1 / 2 then f
         else if r > 1 / 2 then f + 1
         else if even f then f
         else f + 1)"

definition ulp :: "real \<Rightarrow> real" where
  "ulp x = 2 powr (real_of_int \<lfloor>log 2 \<bar>x\<bar>\<rfloor> - 52)"

definition fl64 :: "real \<Rightarrow> real" where
  "fl64 x = (if x = 0 then 0 else real_of_int (rne (x / ulp x)) * ulp x)"

text \<open>
  The operators \<open>+\<close>, \<open>-\<close>, \<open>*\<close> and \<open>/\<close> of the source on finite numbers; \<open>js_quot\<close> is
  used where the source has made sure that the divisor is not zero.
\<close>

definition js_add :: "real \<Rightarrow> real \<Rightarrow> real" where
  "js_add a b = fl64 (a + b)"

definition js_sub :: "real \<Rightarrow> real \<Rightarrow> real" where
  "js_sub a b = fl64 (a - b)"

definition js_mul :: "real \<Rightarrow> real \<Rightarrow> real" where
  "js_mul a b = fl64 (a * b)"

definition js_quot :: "real \<Rightarrow> real \<Rightarrow> real" where
  "js_quot a b = fl64 (a / b)"

section \<open>convertTemperature (cooking.js, lines 383-392)\<close>

definition convertTemperature :: "real \<Rightarrow> TemperatureUnit \<Rightarrow> TemperatureUnit \<Rightarrow> real" where
  "convertTemperature t fromUnit toUnit =
     (if fromUnit = toUnit then t
      else if fromUnit = fahrenheit \<and> toUnit = celsius
        then js_quot (real_of_int (round (js_mul (js_quot (js_mul (js_sub t 32) 5) 9) 10))) 10
      else real_of_int (round (js_add (js_quot (js_mul t 9) 5) 32)))"

section \<open>JavaScript primitives used by cooking.js\<close>

text \<open>
  The result of a division whose divisor may be zero: a finite value, one of the two
  infinities, or NaN (\<open>0 / 0\<close>). Signed zeros are not distinguished; the only unguarded
  divisor of cooking.js is \<open>targetTemp - 40\<close>, which is \<open>+0\<close> when it is zero.
\<close>

datatype jsnum = Fin real | PosInf | NegInf | NaN

definition js_div :: "real \<Rightarrow> real \<Rightarrow> jsnum" where
  "js_div a b =
     (if b \<noteq> 0 then Fin (js_quot a b)
      else if a > 0 then PosInf
      else if a < 0 then NegInf
      else NaN)"

fun js_times :: "jsnum \<Rightarrow> real \<Rightarrow> jsnum" where
  "js_times (Fin x) c = Fin (js_mul x c)"
| "js_times PosInf c = (if c > 0 then PosInf else if c < 0 then NegInf else NaN)"
| "js_times NegInf c = (if c > 0 then NegInf else if c < 0 then PosInf else NaN)"
| "js_times NaN c = NaN"

text \<open>\<open>Math.max(a, j)\<close> and \<open>Math.min(a, j)\<close> with a finite first argument: NaN is contagious.\<close>

fun Math_max :: "real \<Rightarrow> jsnum \<Rightarrow> jsnum" where
  "Math_max a (Fin x) = Fin (max a x)"
| "Math_max a PosInf = PosInf"
| "Math_max a NegInf = Fin a"
| "Math_max a NaN = NaN"

fun Math_min :: "real \<Rightarrow> jsnum \<Rightarrow> jsnum" where
  "Math_min a (Fin x) = Fin (min a x)"
| "Math_min a PosInf = Fin a"
| "Math_min a NegInf = NegInf"
| "Math_min a NaN = NaN"

text \<open>\<open>Math.round(x * 10) / 10\<close> on a finite number, and on a \<open>jsnum\<close>.\<close>

definition round1 :: "real \<Rightarrow> real" where
  "round1 x = js_quot (real_of_int (round (js_mul x 10))) 10"

fun round_tenth :: "jsnum \<Rightarrow> jsnum" where
  "round_tenth (Fin x) = Fin (round1 x)"
| "round_tenth PosInf = PosInf"
| "round_tenth NegInf = NegInf"
| "round_tenth NaN = NaN"

text \<open>\<open>j < c\<close>: every comparison with NaN is false.\<close>

fun js_less :: "jsnum \<Rightarrow> real \<Rightarrow> bool" where
  "js_less (Fin x) c = (x < c)"
| "js_less NegInf c = True"
| "js_less PosInf c = False"
| "js_less NaN c = False"

text \<open>\<open>xs.slice(-n)\<close>: the last \<open>n\<close> elements, or all of them when there are fewer.\<close>

definition slice_last :: "nat \<Rightarrow> 'a list \<Rightarrow> 'a list" where
  "slice_last n xs = drop (length xs - n) xs"

text \<open>\<open>s.includes(sub)\<close> on strings.\<close>

fun starts_with :: "string \<Rightarrow> string \<Rightarrow> bool" where
  "starts_with [] s = True"
| "starts_with (p # ps) [] = False"
| "starts_with (p # ps) (c # cs) = (p = c \<and> starts_with ps cs)"

fun str_includes :: "string \<Rightarrow> string \<Rightarrow> bool" where
  "str_includes sub [] = (sub = [])"
| "str_includes sub (c # cs) = (starts_with sub (c # cs) \<or> str_includes sub cs)"

text \<open>The string value of each member of the \<open>CookMethod\<close> union.\<close>

fun method_name :: "CookMethod \<Rightarrow> string" where
  "method_name smoke_low_slow = ''smoke_low_slow''"
| "method_name smoke_hot_fast = ''smoke_hot_fast''"
| "method_name grill_direct = ''grill_direct''"
| "method_name grill_indirect = ''grill_indirect''"
| "method_name reverse_sear = ''reverse_sear''"
| "method_name spatchcock = ''spatchcock''"
| "method_name rotisserie = ''rotisserie''"

text \<open>
  Truncation toward zero (\<open>ToIntegerOrInfinity\<close>), the remainder \<open>x % y\<close> of numbers
  (sign of the dividend; the result of \<open>%\<close> is exact), and the two \<open>Date\<close> methods the
  source calls, as ECMAScript defines them: both work on local time,
  \<open>LocalTime(t) = t + LocalTZA(t, true)\<close>. \<open>getMinutes\<close> is the minute of the local
  hour; \<open>setMinutes\<close> replaces it by the truncated argument, lets it carry into the
  hours, and converts back with \<open>UTC(t) = t - LocalTZA(t, false)\<close>.
\<close>

definition js_trunc :: "real \<Rightarrow> int" where
  "js_trunc x = (if x \<ge> 0 then \<lfloor>x\<rfloor> else \<lceil>x\<rceil>)"

definition js_rem :: "real \<Rightarrow> real \<Rightarrow> real" where
  "js_rem x y = x - y * real_of_int (js_trunc (x / y))"

definition LocalTime :: "Host \<Rightarrow> Date \<Rightarrow> int" where
  "LocalTime K t = t + LocalTZA K True t"

definition getMinutes :: "Host \<Rightarrow> Date \<Rightarrow> int" where
  "getMinutes K d = (LocalTime K d div 60000) mod 60"

definition setMinutes :: "Host \<Rightarrow> Date \<Rightarrow> real \<Rightarrow> Date" where
  "setMinutes K d m =
     (let t = LocalTime K d;
          local = t - ((t div 60000) mod 60) * 60000 + js_trunc m * 60000
      in local - LocalTZA K False local)"

section \<open>Errors and results\<close>

text \<open>
  cooking.js has no \<open>throw\<close> statement. The only way an operation fails is the
  \<open>TypeError\<close> that JavaScript raises when a property of \<open>undefined\<close> is read.
  \<open>UnknownProtein\<close> is the error kind of the specification's taxonomy; no operation
  below constructs it.
\<close>

datatype error = TypeError | UnknownProtein

record TargetTemperature =
  targetTemp :: real
  pullTemp :: real
  doneness :: "DonenessLevel option"

text \<open>
  Message texts that interpolate numbers, or that contain characters outside ASCII, are
  represented by one constructor per template, carrying the interpolated values.
\<close>

datatype DurationText =
  NotRecommended
  | HoursAndMinutes int int
  | MinutesOnly int

datatype Assumption =
  StallBufferIncluded
  | WrappingReducesStall
  | AddRestTime real

record CookTimeEstimate =
  totalMinutes :: real
  hoursAndMinutes :: DurationText
  estimatedDoneTime :: Date
  confidence :: Confidence
  assumptions :: "Assumption list"
  warnings :: "string list"

record StartTimeResult =
  startTime :: Date
  cookTime :: CookTimeEstimate
  restTime :: real
  bufferMinutes :: real

section \<open>getProteinProfile, getTargetTemperature (cooking.js, lines 9-30)\<close>

text \<open>
  \<open>PROTEIN_PROFILES[proteinType]\<close> is a property read on a plain object, so it follows
  the prototype chain. For an own key it is the profile; for a name that the object
  inherits from \<open>Object.prototype\<close> it is that inherited function or object, which
  has none of the properties of a profile (each read of one gives \<open>undefined\<close>); for
  any other string it is \<open>undefined\<close>, and the first read of a property of it raises
  the \<open>TypeError\<close>.
\<close>

definition Object_prototype_names :: "string list" where
  "Object_prototype_names =
     [''constructor'', ''__proto__'', ''__defineGetter__'', ''__defineSetter__'',
      ''__lookupGetter__'', ''__lookupSetter__'', ''hasOwnProperty'', ''isPrototypeOf'',
      ''propertyIsEnumerable'', ''toLocaleString'', ''toString'', ''valueOf'']"

datatype lookup = Undefined | Inherited | Own ProteinProfile

definition getProteinProfile :: "Host \<Rightarrow> string \<Rightarrow> lookup" where
  "getProteinProfile K proteinType =
     (case PROTEIN_PROFILES K proteinType of
        Some profile \<Rightarrow> Own profile
      | None \<Rightarrow>
          if proteinType \<in> set Object_prototype_names then Inherited else Undefined)"

definition Object_keys :: "('k \<times> 'v) list \<Rightarrow> 'k list" where
  "Object_keys obj = map fst obj"

text \<open>
  \<open>doneness\<close> is an optional member of a union of non-empty strings, so it is truthy
  exactly when it is supplied. \<open>availableDoneness[0]\<close> is \<open>undefined\<close> for an empty
  object, and \<open>donenessTemps[undefined] ?? usdaSafeTemp\<close> is then the safe temperature.
  On an inherited object \<open>donenessTemps\<close> is \<open>undefined\<close>, and both branches read it
  (\<open>profile.donenessTemps[doneness]\<close>, \<open>Object.keys(profile.donenessTemps)\<close>) and raise.
  The two temperatures of a profile are table values; \<open>pullTemp\<close> is their difference,
  which the subtraction of the source gives without rounding whenever both are whole
  degrees.
\<close>

definition getTargetTemperature ::
  "Host \<Rightarrow> string \<Rightarrow> DonenessLevel option \<Rightarrow> error + TargetTemperature" where
  "getTargetTemperature K proteinType doneness_arg =
     (case getProteinProfile K proteinType of
        Undefined \<Rightarrow> Inl TypeError
      | Inherited \<Rightarrow> Inl TypeError
      | Own profile \<Rightarrow>
          let firstAvailable =
                (case Object_keys (donenessTemps profile) of [] \<Rightarrow> None | k # _ \<Rightarrow> Some k);
              actualDoneness =
                (case doneness_arg of
                   None \<Rightarrow> firstAvailable
                 | Some d \<Rightarrow>
                     if map_of (donenessTemps profile) d \<noteq> None then Some d
                     else firstAvailable);
              target =
                (case actualDoneness of
                   None \<Rightarrow> usdaSafeTemp profile
                 | Some d \<Rightarrow>
                     (case map_of (donenessTemps profile) d of
                        None \<Rightarrow> usdaSafeTemp profile
                      | Some t \<Rightarrow> t));
              pull = target - carryoverDegrees profile
          in Inr \<lparr>targetTemp = target, pullTemp = pull, doneness = actualDoneness\<rparr>)"

section \<open>estimateCookTime (cooking.js, lines 34-99)\<close>

text \<open>
  The local variables \<open>baseTemp\<close>, \<open>tempAdjustment\<close> and \<open>totalMinutes\<close> (after the
  stall buffer is added, before the final rounding) are definitions of their own, so
  that statements can name them. \<open>now\<close> is the value of \<open>new Date()\<close>. The test
  \<open>if (smokerTemp)\<close> is a truthiness test: \<open>undefined\<close> and a supplied \<open>0\<close> are both
  falsy and leave the adjustment at 1. On an inherited object
  \<open>profile.estimatedTimePerPound\<close> is \<open>undefined\<close> and indexing it raises.
\<close>

definition baseTemp :: "CookMethod \<Rightarrow> real" where
  "baseTemp cookMethod =
     (if str_includes ''hot_fast'' (method_name cookMethod) then HOT_FAST_TEMP
      else DEFAULT_SMOKER_TEMP)"

definition tempAdjustment :: "CookMethod \<Rightarrow> real option \<Rightarrow> real" where
  "tempAdjustment cookMethod smokerTemp =
     (case smokerTemp of
        None \<Rightarrow> 1
      | Some s \<Rightarrow>
          if s \<noteq> 0 then
            let tempDiff = js_sub s (baseTemp cookMethod)
            in max (1 / 2) (min (3 / 2) (js_sub 1 (js_quot tempDiff 250)))
          else 1)"

definition cookMinutes :: "ProteinProfile \<Rightarrow> real \<Rightarrow> CookMethod \<Rightarrow> real option \<Rightarrow> real" where
  "cookMinutes profile weightPounds cookMethod smokerTemp =
     (let base = js_mul (js_mul (estimatedTimePerPound profile cookMethod) weightPounds)
                   (tempAdjustment cookMethod smokerTemp)
      in if stallRange profile \<noteq> None then js_add base 60 else base)"

definition estimateCookTime ::
  "Host \<Rightarrow> string \<Rightarrow> real \<Rightarrow> CookMethod \<Rightarrow> real option \<Rightarrow> Date
     \<Rightarrow> error + CookTimeEstimate" where
  "estimateCookTime K proteinType weightPounds cookMethod smokerTemp now =
     (case getProteinProfile K proteinType of
        Undefined \<Rightarrow> Inl TypeError
      | Inherited \<Rightarrow> Inl TypeError
      | Own profile \<Rightarrow>
          let methodInfo = COOK_METHOD_INFO K cookMethod;
              baseTimePerPound = estimatedTimePerPound profile cookMethod
          in if baseTimePerPound = 0 then
               Inr \<lparr>totalMinutes = 0,
                    hoursAndMinutes = NotRecommended,
                    estimatedDoneTime = now,
                    confidence = Low,
                    assumptions = [],
                    warnings = [methodDisplayName methodInfo @ '' is not recommended for ''
                                  @ displayName profile]\<rparr>
             else
               let total = cookMinutes profile weightPounds cookMethod smokerTemp;
                   stalls = (stallRange profile \<noteq> None);
                   hours = \<lfloor>js_quot total 60\<rfloor>;
                   minutes = round (js_rem total 60)
               in Inr \<lparr>totalMinutes = real_of_int (round total),
                       hoursAndMinutes =
                         (if hours > 0 then HoursAndMinutes hours minutes
                          else MinutesOnly minutes),
                       estimatedDoneTime =
                         setMinutes K now (js_add (real_of_int (getMinutes K now)) total),
                       confidence =
                         (if stalls then Low
                          else if baseTimePerPound > 50 then Medium
                          else High),
                       assumptions =
                         (if stalls then [StallBufferIncluded, WrappingReducesStall] else [])
                         @ (if requiresRest profile \<and> restTimeMinutes profile > 0
                            then [AddRestTime (restTimeMinutes profile)] else []),
                       warnings =
                         (if stalls
                          then [''Large cuts with stalls are unpredictable - plan for variability'']
                          else [])\<rparr>)"

section \<open>calculateStartTime (cooking.js, lines 103-120)\<close>

text \<open>
  The source looks the profile up first, which cannot fail, and reads it only after
  \<open>estimateCookTime\<close> has returned; an error of the estimate is passed on unchanged,
  and the estimate fails for everything but a profile.
\<close>

definition calculateStartTime ::
  "Host \<Rightarrow> string \<Rightarrow> real \<Rightarrow> CookMethod \<Rightarrow> Date \<Rightarrow> real option \<Rightarrow> Date
     \<Rightarrow> error + StartTimeResult" where
  "calculateStartTime K proteinType weightPounds cookMethod targetServingTime smokerTemp now =
     (case estimateCookTime K proteinType weightPounds cookMethod smokerTemp now of
        Inl e \<Rightarrow> Inl e
      | Inr estimate \<Rightarrow>
          (case getProteinProfile K proteinType of
             Undefined \<Rightarrow> Inl TypeError
           | Inherited \<Rightarrow> Inl TypeError
           | Own profile \<Rightarrow>
               let rest = restTimeMinutes profile;
                   buffer = (if confidence estimate = Low then 120
                             else if confidence estimate = Medium then 60 else 30);
                   totalMinutesNeeded = js_add (js_add (totalMinutes estimate) rest) buffer
               in Inr \<lparr>startTime =
                         setMinutes K targetServingTime
                           (js_sub (real_of_int (getMinutes K targetServingTime))
                              totalMinutesNeeded),
                       cookTime = estimate,
                       restTime = rest,
                       bufferMinutes = buffer\<rparr>))"

section \<open>analyzeTemperature (cooking.js, lines 124-208)\<close>

datatype Recommendation =
  InStallZone
  | ConsiderWrapping
  | RisingThroughStall
  | GettingClose real
  | TargetReached
  | RestBeforeSlicing real
  | TemperatureDropping
  | AddFuelOrAirflow
  | EarlyStages

record TemperatureAnalysis =
  currentTemp :: real
  targetTemp :: real
  tempDelta :: real
  percentComplete :: jsnum
  trend :: Trend
  trendRatePerHour :: real
  estimatedMinutesRemaining :: "int option"
  inStallZone :: bool
  recommendations :: "Recommendation list"

text \<open>
  \<open>profile.stallRange && t >= profile.stallRange.start && t <= profile.stallRange.end\<close>,
  the test the source writes out at each use, on the value of \<open>profile.stallRange\<close>
  (\<open>None\<close> is \<open>undefined\<close>).
\<close>

definition inStallRange :: "StallRange option \<Rightarrow> real \<Rightarrow> bool" where
  "inStallRange range_opt t =
     (case range_opt of
        None \<Rightarrow> False
      | Some r \<Rightarrow> t \<ge> range_start r \<and> t \<le> range_end r)"

text \<open>The local \<open>percentComplete\<close>, before the rounding in the returned object.\<close>

definition percentCompleteOf :: "real \<Rightarrow> real \<Rightarrow> jsnum" where
  "percentCompleteOf current target =
     (let startingTemp = 40;
          totalTempRange = js_sub target startingTemp;
          tempProgress = js_sub current startingTemp
      in Math_min 100 (Math_max 0 (js_times (js_div tempProgress totalTempRange) 100)))"

text \<open>
  The locals of the block of lines 132-155, for the readings of the last-five window:
  \<open>timeChange\<close> in hours and \<open>trendRatePerHour\<close>; then \<open>trend\<close> and \<open>trendRatePerHour\<close>
  after the block.
\<close>

definition timeChangeHours :: "TemperatureReading list \<Rightarrow> real" where
  "timeChangeHours recentReadings =
     js_quot
       (js_sub (real_of_int (timestamp (recentReadings ! (length recentReadings - 1))))
               (real_of_int (timestamp (recentReadings ! 0))))
       (1000 * 60 * 60)"

definition rateOfChange :: "TemperatureReading list \<Rightarrow> real" where
  "rateOfChange recentReadings =
     js_quot
       (js_sub (temp (recentReadings ! (length recentReadings - 1)))
               (temp (recentReadings ! 0)))
       (timeChangeHours recentReadings)"

definition trendOf ::
  "StallRange option \<Rightarrow> real \<Rightarrow> TemperatureReading list option \<Rightarrow> Trend \<times> real" where
  "trendOf range_opt current previousReadings =
     (case previousReadings of
        None \<Rightarrow> (Stable, 0)
      | Some rs \<Rightarrow>
          if length rs \<ge> 2 then
            let recentReadings = slice_last 5 rs
            in if timeChangeHours recentReadings > 0 then
                 let rate = rateOfChange recentReadings
                 in (if \<bar>rate\<bar> < 2 then
                       (if inStallRange range_opt current then Stalled else Stable)
                     else if rate > 0 then Rising
                     else Falling,
                     rate)
               else (Stable, 0)
          else (Stable, 0))"

text \<open>
  The body of \<open>analyzeTemperature\<close> on the values it reads from the profile:
  \<open>stallRange\<close>, \<open>carryoverDegrees\<close> (\<open>None\<close> is \<open>undefined\<close>, and then
  \<open>tempDelta <= undefined + 5\<close> is a comparison with NaN, which is false),
  \<open>requiresRest\<close> as a truth value and \<open>restTimeMinutes\<close>.
\<close>

definition analysis ::
  "StallRange option \<Rightarrow> real option \<Rightarrow> bool \<Rightarrow> real \<Rightarrow> real \<Rightarrow> real
     \<Rightarrow> CookMethod option \<Rightarrow> TemperatureReading list option \<Rightarrow> TemperatureAnalysis" where
  "analysis range_opt carry needsRest restMinutes current target cookMethod previousReadings =
     (let delta = js_sub target current;
          percent = percentCompleteOf current target;
          tr = fst (trendOf range_opt current previousReadings);
          rate = snd (trendOf range_opt current previousReadings);
          inZone = inStallRange range_opt current;
          remaining =
            (if rate > 0 \<and> tr = Rising
             then Some (round (js_mul (js_quot delta rate) 60)) else None);
          recs =
            (if inZone \<and> tr = Stalled then [InStallZone, ConsiderWrapping]
             else if inZone \<and> tr = Rising then [RisingThroughStall]
             else [])
            @ (case carry of
                 None \<Rightarrow> []
               | Some c \<Rightarrow>
                   if delta \<le> js_add c 5 then [GettingClose (js_sub target c)] else [])
            @ (if delta \<le> 0
               then TargetReached
                    # (if needsRest then [RestBeforeSlicing restMinutes] else [])
               else [])
            @ (if tr = Falling
               then TemperatureDropping
                    # (if (case cookMethod of
                             None \<Rightarrow> False
                           | Some m \<Rightarrow> str_includes ''smoke'' (method_name m))
                       then [AddFuelOrAirflow] else [])
               else [])
            @ (if js_less percent 25
                  \<and> (case previousReadings of None \<Rightarrow> False | Some rs \<Rightarrow> length rs > 0)
               then [EarlyStages] else [])
      in \<lparr>currentTemp = current,
          targetTemp = target,
          tempDelta = delta,
          percentComplete = round_tenth percent,
          trend = tr,
          trendRatePerHour = round1 rate,
          estimatedMinutesRemaining = remaining,
          inStallZone = inZone,
          recommendations = recs\<rparr>)"

definition analyzeTemperature ::
  "Host \<Rightarrow> real \<Rightarrow> real \<Rightarrow> string \<Rightarrow> CookMethod option \<Rightarrow> Date option
     \<Rightarrow> TemperatureReading list option \<Rightarrow> error + TemperatureAnalysis" where
  "analyzeTemperature K current target proteinType cookMethod cookStartTime previousReadings =
     (case getProteinProfile K proteinType of
        Undefined \<Rightarrow> Inl TypeError
      | Inherited \<Rightarrow>
          Inr (analysis None None False 0 current target cookMethod previousReadings)
      | Own profile \<Rightarrow>
          Inr (analysis (stallRange profile) (Some (carryoverDegrees profile))
                 (requiresRest profile) (restTimeMinutes profile)
                 current target cookMethod previousReadings))"

section \<open>detectStall (cooking.js, lines 212-297)\<close>

text \<open>
  The returns of the source, in its order: no stall range; below the range; above the
  range; fewer than 3 readings among the last 6; and the computed result. An inherited
  object has no \<open>stallRange\<close>, so it takes the first return, with \<open>undefined\<close>
  interpolated for its \<open>displayName\<close>.
\<close>

datatype StallRecommendation =
  NoTypicalStall string
  | ApproachingStallZone real real
  | PushedThrough
  | NeedMoreReadings
  | StallDetected
  | StallLasted int
  | ExtendedStall int
  | StillRising

record StallResult =
  isStalled :: bool
  stallDurationMinutes :: real
  inStallZone :: bool
  recommendation :: StallRecommendation

text \<open>The local \<open>tempRatePerHour\<close>, computed from \<open>recentReadings\<close> (lines 253-257).\<close>

definition tempRatePerHour :: "TemperatureReading list \<Rightarrow> real" where
  "tempRatePerHour recentReadings =
     (let tempChange = js_sub (temp (recentReadings ! (length recentReadings - 1)))
                         (temp (recentReadings ! 0));
          timeSpanMinutes =
            js_quot
              (js_sub (real_of_int (timestamp (recentReadings ! (length recentReadings - 1))))
                      (real_of_int (timestamp (recentReadings ! 0))))
              (1000 * 60)
      in if timeSpanMinutes > 0 then js_mul (js_quot tempChange timeSpanMinutes) 60 else 0)"

text \<open>
  The loop of lines 264-272, from the newest reading backwards: the list argument is the
  readings in reverse, the last argument is \<open>stallDurationMinutes\<close> so far. One clock value
  \<open>now\<close> stands for the \<open>new Date()\<close> of every iteration.
\<close>

fun stallScan :: "StallRange \<Rightarrow> Date \<Rightarrow> TemperatureReading list \<Rightarrow> real \<Rightarrow> real" where
  "stallScan zone now [] d = d"
| "stallScan zone now (r # rs) d =
     (if temp r \<ge> range_start zone \<and> temp r \<le> range_end zone
      then stallScan zone now rs
             (js_quot (js_sub (real_of_int now) (real_of_int (timestamp r))) (1000 * 60))
      else d)"

definition detectStall ::
  "Host \<Rightarrow> string \<Rightarrow> real \<Rightarrow> TemperatureReading list \<Rightarrow> Date \<Rightarrow> error + StallResult" where
  "detectStall K proteinType current readings now =
     (case getProteinProfile K proteinType of
        Undefined \<Rightarrow> Inl TypeError
      | Inherited \<Rightarrow>
          Inr \<lparr>isStalled = False, stallDurationMinutes = 0, inStallZone = False,
               recommendation = NoTypicalStall ''undefined''\<rparr>
      | Own profile \<Rightarrow>
          (case stallRange profile of
             None \<Rightarrow>
               Inr \<lparr>isStalled = False, stallDurationMinutes = 0, inStallZone = False,
                    recommendation = NoTypicalStall (displayName profile)\<rparr>
           | Some zone \<Rightarrow>
               let inZone = (current \<ge> range_start zone \<and> current \<le> range_end zone)
               in if \<not> inZone then
                    (if current < range_start zone then
                       Inr \<lparr>isStalled = False, stallDurationMinutes = 0, inStallZone = False,
                            recommendation =
                              ApproachingStallZone (range_start zone) (range_end zone)\<rparr>
                     else
                       Inr \<lparr>isStalled = False, stallDurationMinutes = 0, inStallZone = False,
                            recommendation = PushedThrough\<rparr>)
                  else
                    let recentReadings = slice_last 6 readings
                    in if length recentReadings < 3 then
                         Inr \<lparr>isStalled = False, stallDurationMinutes = 0, inStallZone = True,
                              recommendation = NeedMoreReadings\<rparr>
                       else
                         let stalled = (tempRatePerHour recentReadings < 3);
                             duration =
                               (if stalled \<and> length readings \<ge> 3
                                then stallScan zone now (rev readings) 0 else 0);
                             advice =
                               (if stalled then
                                  (if duration < 60 then StallDetected
                                   else if duration < 180 then StallLasted (round duration)
                                   else ExtendedStall (round duration))
                                else StillRising)
                         in Inr \<lparr>isStalled = stalled,
                                 stallDurationMinutes = real_of_int (round duration),
                                 inStallZone = inZone,
                                 recommendation = advice\<rparr>))"

section \<open>calculateRestTime (cooking.js, lines 301-339)\<close>

datatype RestInstruction =
  NoRestRequired string
  | ServeImmediately
  | RestFor real
  | WillRiseBy real
  | ExpectedFinal real
  | RestInCooler
  | RestUncovered
  | RestTented
  | FinalBelowTarget real
  | FinalExceedsTarget real

text \<open>
  On an inherited object \<open>restTimeMinutes\<close> and \<open>carryoverDegrees\<close> are \<open>undefined\<close>
  (\<open>None\<close>), \<open>currentTemp + undefined\<close> is NaN, and \<open>requiresRest\<close> is falsy.
\<close>

record RestResult =
  recommendedRestMinutes :: "real option"
  expectedCarryover :: "real option"
  expectedFinalTemp :: jsnum
  instructions :: "RestInstruction list"

text \<open>
  \<open>targetFinalTemp && ...\<close> is a truthiness test again: an absent target and a target
  of \<open>0\<close> both add no instruction.
\<close>

definition calculateRestTime ::
  "Host \<Rightarrow> string \<Rightarrow> real \<Rightarrow> real option \<Rightarrow> error + RestResult" where
  "calculateRestTime K proteinType current targetFinalTemp =
     (case getProteinProfile K proteinType of
        Undefined \<Rightarrow> Inl TypeError
      | Inherited \<Rightarrow>
          Inr \<lparr>recommendedRestMinutes = None,
               expectedCarryover = None,
               expectedFinalTemp = NaN,
               instructions = [NoRestRequired ''undefined'', ServeImmediately]\<rparr>
      | Own profile \<Rightarrow>
          let carry = carryoverDegrees profile;
              final = js_add current carry;
              rest = restTimeMinutes profile;
              steps =
                (if \<not> requiresRest profile
                 then [NoRestRequired (displayName profile), ServeImmediately]
                 else
                   [RestFor rest, WillRiseBy carry, ExpectedFinal final]
                   @ [if category profile = beef
                         \<and> (proteinType = ''beef_brisket'' \<or> proteinType = ''beef_prime_rib'')
                      then RestInCooler
                      else if category profile = poultry then RestUncovered
                      else RestTented]
                   @ (case targetFinalTemp of
                        None \<Rightarrow> []
                      | Some t \<Rightarrow>
                          if t \<noteq> 0 \<and> final < t then [FinalBelowTarget (js_sub t final)]
                          else if t \<noteq> 0 \<and> final > js_add t 5
                          then [FinalExceedsTarget (js_sub t carry)]
                          else []))
          in Inr \<lparr>recommendedRestMinutes = Some rest,
                  expectedCarryover = Some carry,
                  expectedFinalTemp = Fin final,
                  instructions = steps\<rparr>)"

section \<open>A sample knowledge base\<close>

text \<open>
  Two synthetic profiles, one with a stall range and one without, and a host on UTC, to
  evaluate the operations on concrete inputs. They stand in for the table of
  dist/constants.js and claim nothing about its values.
\<close>

definition sample_brisket :: ProteinProfile where
  "sample_brisket =
     \<lparr>ptype = ''beef_brisket'', displayName = ''Beef Brisket'', category = beef,
      usdaSafeTemp = 145, requiresRest = True, restTimeMinutes = 60, carryoverDegrees = 5,
      donenessTemps = [(pullable, 203)],
      recommendedMethods = [smoke_low_slow, smoke_hot_fast],
      stallRange = Some \<lparr>range_start = 150, range_end = 175\<rparr>,
      estimatedTimePerPound =
        (\<lambda>m. if m = smoke_low_slow then 70 else if m = smoke_hot_fast then 45 else 0),
      tips = []\<rparr>"

definition sample_chicken :: ProteinProfile where
  "sample_chicken =
     \<lparr>ptype = ''chicken_breast'', displayName = ''Chicken Breast'', category = poultry,
      usdaSafeTemp = 165, requiresRest = True, restTimeMinutes = 5, carryoverDegrees = 3,
      donenessTemps = [(usda_safe, 165), (well_done, 170)],
      recommendedMethods = [grill_direct],
      stallRange = None,
      estimatedTimePerPound =
        (\<lambda>m. if m = grill_direct then 12 else if m = smoke_low_slow then 60 else 0),
      tips = []\<rparr>"

definition sample_constants :: Host where
  "sample_constants =
     \<lparr>PROTEIN_PROFILES =
        [''beef_brisket'' \<mapsto> sample_brisket, ''chicken_breast'' \<mapsto> sample_chicken],
      COOK_METHOD_INFO =
        (\<lambda>m. \<lparr>methodDisplayName = method_name m, tempRange = [], description = []\<rparr>),
      LocalTZA = (\<lambda>isUTC t. 0)\<rparr>"

definition reading :: "real \<Rightarrow> Date \<Rightarrow> TemperatureReading" where
  "reading t d = \<lparr>temp = t, timestamp = d\<rparr>"

section \<open>Auxiliary facts\<close>

subsection \<open>Binary64 rounding\<close>

text \<open>
  Rounding is exact on integers below \<open>2 ^ 53\<close> in magnitude, moves a number by at
  most the fraction \<open>2 ^ -53\<close> of its magnitude, and keeps its sign.
\<close>

lemma rne_of_int: "rne (real_of_int m) = m"
  by (simp add: rne_def)

lemma rne_error: "\<bar>real_of_int (rne y) - y\<bar> \<le> 1 / 2"
proof -
  have "real_of_int \<lfloor>y\<rfloor> \<le> y" and "y < real_of_int \<lfloor>y\<rfloor> + 1"
    by linarith+
  then show ?thesis
    by (auto simp add: rne_def Let_def)
qed

lemma ulp_pos: "0 < ulp x"
  by (simp add: ulp_def)

lemma ulp_le:
  assumes "x \<noteq> 0"
  shows "ulp x * 2 ^ 52 \<le> \<bar>x\<bar>"
proof -
  have "real_of_int \<lfloor>log 2 \<bar>x\<bar>\<rfloor> \<le> log 2 \<bar>x\<bar>"
    by simp
  then have "2 powr real_of_int \<lfloor>log 2 \<bar>x\<bar>\<rfloor> \<le> \<bar>x\<bar>"
    using assms by (subst (asm) le_log_iff) simp_all
  moreover have "ulp x * 2 ^ 52 = 2 powr real_of_int \<lfloor>log 2 \<bar>x\<bar>\<rfloor>"
    by (simp add: ulp_def powr_diff)
  ultimately show ?thesis by simp
qed

lemma fl64_error: "\<bar>fl64 x - x\<bar> \<le> \<bar>x\<bar> / 2 ^ 53"
proof (cases "x = 0")
  case True
  then show ?thesis by (simp add: fl64_def)
next
  case False
  define u where "u = ulp x"
  have u: "0 < u" unfolding u_def by (rule ulp_pos)
  have "fl64 x - x = (real_of_int (rne (x / u)) - x / u) * u"
    using False u by (simp add: fl64_def u_def field_simps)
  then have "\<bar>fl64 x - x\<bar> = \<bar>real_of_int (rne (x / u)) - x / u\<bar> * u"
    using u by (simp add: abs_mult)
  also have "\<dots> \<le> (1 / 2) * u"
    using rne_error [of "x / u"] u by (intro mult_right_mono) simp_all
  also have "\<dots> \<le> \<bar>x\<bar> / 2 ^ 53"
    using ulp_le [OF False] unfolding u_def by simp
  finally show ?thesis .
qed

lemma fl64_0 [simp]: "fl64 0 = 0"
  by (simp add: fl64_def)

lemma fl64_of_int:
  assumes "\<bar>n\<bar> < 2 ^ 53"
  shows "fl64 (real_of_int n) = real_of_int n"
proof (cases "n = 0")
  case True
  then show ?thesis by simp
next
  case False
  define e where "e = \<lfloor>log 2 \<bar>real_of_int n\<bar>\<rfloor>"
  have pos: "0 < \<bar>real_of_int n\<bar>" using False by simp
  have "\<bar>real_of_int n\<bar> < 2 powr 53"
    using assms by (simp flip: of_int_abs add: of_int_less_iff [symmetric] del: of_int_less_iff)
  then have "log 2 \<bar>real_of_int n\<bar> < 53"
    using pos by (subst log_less_iff) simp_all
  then have e: "e \<le> 52"
    unfolding e_def by linarith
  define k where "k = nat (52 - e)"
  have u: "ulp (real_of_int n) = 1 / 2 ^ k"
  proof -
    have "real_of_int e - 52 = - real k"
      using e unfolding k_def by simp
    then have "ulp (real_of_int n) = 2 powr (- real k)"
      unfolding ulp_def e_def by simp
    also have "\<dots> = 1 / 2 ^ k"
      by (simp add: powr_minus powr_realpow divide_inverse)
    finally show ?thesis .
  qed
  have "real_of_int n / ulp (real_of_int n) = real_of_int (n * 2 ^ k)"
    by (simp add: u)
  then have "rne (real_of_int n / ulp (real_of_int n)) = n * 2 ^ k"
    by (simp only: rne_of_int)
  then show ?thesis
    using False by (simp add: fl64_def u)
qed

lemma fl64_numeral [simp]:
  "numeral k < (9007199254740992 :: int) \<Longrightarrow> fl64 (numeral k) = numeral k"
  using fl64_of_int [of "numeral k"] by simp

lemma fl64_neg_numeral [simp]:
  "numeral k < (9007199254740992 :: int) \<Longrightarrow> fl64 (- numeral k) = - numeral k"
  using fl64_of_int [of "- numeral k"] by simp

lemma fl64_1 [simp]: "fl64 1 = 1"
  using fl64_of_int [of 1] by simp

lemma fl64_pos_iff [simp]: "0 < fl64 x \<longleftrightarrow> 0 < x"
  using fl64_error [of x] by (auto simp add: abs_if field_simps split: if_splits)

lemma fl64_zero_iff [simp]: "fl64 x = 0 \<longleftrightarrow> x = 0"
  using fl64_error [of x] by (auto simp add: abs_if field_simps split: if_splits)

lemma fl64_neg_iff [simp]: "fl64 x < 0 \<longleftrightarrow> x < 0"
  using fl64_error [of x] by (auto simp add: abs_if field_simps split: if_splits)

lemma fl64_abs_le: "\<bar>fl64 x\<bar> \<le> \<bar>x\<bar> * (1001 / 1000)"
proof -
  have "\<bar>x\<bar> / 2 ^ 53 \<le> \<bar>x\<bar> / 1000"
    by (intro divide_left_mono) simp_all
  then show ?thesis
    using fl64_error [of x] by linarith
qed

lemma fl64_near:
  assumes "\<bar>x\<bar> \<le> 4096"
  shows "\<bar>fl64 x - x\<bar> \<le> 1 / 1000000"
proof -
  have "\<bar>x\<bar> / 2 ^ 53 \<le> 4096 / 2 ^ 53"
    using assms by (intro divide_right_mono) simp_all
  then show ?thesis
    using fl64_error [of x] by simp
qed

subsection \<open>Evaluating a binary64 operation\<close>

text \<open>
  The value of \<open>fl64\<close> at a given number, from the binade the number lies in and the
  integer nearest to it in units of the spacing there.
\<close>

lemma rne_unique:
  assumes "\<bar>y - real_of_int m\<bar> < 1 / 2"
  shows "rne y = m"
proof (cases "real_of_int m \<le> y")
  case True
  then have "\<lfloor>y\<rfloor> = m" using assms by (intro floor_unique) linarith+
  then show ?thesis using assms True by (simp add: rne_def Let_def)
next
  case False
  then have "\<lfloor>y\<rfloor> = m - 1" using assms by (intro floor_unique) (simp, linarith)+
  then show ?thesis using assms False by (simp add: rne_def Let_def)
qed

lemma rne_tie:
  assumes "y = real_of_int m + 1 / 2"
  shows "rne y = (if even m then m else m + 1)"
proof -
  have "\<lfloor>y\<rfloor> = m" unfolding assms by (intro floor_unique) simp_all
  then show ?thesis unfolding assms by (simp add: rne_def Let_def)
qed

lemma rne_tie_even:
  assumes "y = real_of_int m + 1 / 2" and "even m"
  shows "rne y = m"
  using rne_tie [OF assms(1)] assms(2) by simp

lemma rne_tie_odd:
  assumes "y = real_of_int m + 1 / 2" and "odd m"
  shows "rne y = m + 1"
  using rne_tie [OF assms(1)] assms(2) by simp

lemma ulp_binade:
  assumes "2 powr real_of_int e \<le> \<bar>x\<bar>" and "\<bar>x\<bar> < 2 powr (real_of_int e + 1)"
  shows "ulp x = 2 powr (real_of_int e - 52)"
proof -
  have pos: "0 < \<bar>x\<bar>"
    using assms(1) by (rule less_le_trans [rotated]) simp
  have "real_of_int e \<le> log 2 \<bar>x\<bar>"
    using assms(1) pos by (subst le_log_iff) simp_all
  moreover have "log 2 \<bar>x\<bar> < real_of_int e + 1"
    using assms(2) pos by (subst log_less_iff) simp_all
  ultimately have "\<lfloor>log 2 \<bar>x\<bar>\<rfloor> = e"
    by (intro floor_unique) simp_all
  then show ?thesis by (simp add: ulp_def)
qed

lemma fl64_eq:
  assumes "ulp x = u" and "rne (x / u) = m" and "x \<noteq> 0"
  shows "fl64 x = real_of_int m * u"
  using assms by (simp add: fl64_def)

subsection \<open>Worked values\<close>

text \<open>
  The operations of five computations in which the rounding of binary64 decides the
  result, one operation per lemma: the minutes of an 18.5 lb cut at 70 minutes per
  pound and 300 degrees (\<open>966.4999999999999\<close>, where the exact product is 966.5); the
  conversion of 101.03 degrees Fahrenheit (\<open>383.49999999999994\<close> tenths, exactly
  383.5); the rate from 161 to 150 degrees over 10560 seconds (\<open>-3.7500000000000004\<close>,
  exactly -3.75); the rate from 150 to 150.6 degrees over 12 minutes
  (\<open>2.9999999999999716\<close>, exactly 3); and the percentage at 63 degrees of a target of
  120 (\<open>28.749999999999996\<close>, exactly 28.75).
\<close>

lemma cook_example_1: "js_quot 75 250 = 5404319552844595 / 2 ^ 54"
proof -
  have "fl64 (3 / 10) = real_of_int (5404319552844595) * (1 / 2 ^ 54)"
  proof (rule fl64_eq)
    show "ulp (3 / 10) = 1 / 2 ^ 54"
      using ulp_binade [of "- 2" "3 / 10"] by (simp add: powr_neg_numeral)
    show "rne (3 / 10 / (1 / 2 ^ 54)) = 5404319552844595"
      by (rule rne_unique) simp
  qed simp
  then show ?thesis
    by (simp add: js_quot_def)
qed

lemma cook_example_2: "js_sub 1 (5404319552844595 / 18014398509481984) = 3152519739159347 / 2 ^ 52"
proof -
  have "fl64 (12610078956637389 / 2 ^ 54) = real_of_int (6305039478318694) * (1 / 2 ^ 53)"
  proof (rule fl64_eq)
    show "ulp (12610078956637389 / 2 ^ 54) = 1 / 2 ^ 53"
      using ulp_binade [of "- 1" "12610078956637389 / 2 ^ 54"] by (simp add: powr_neg_numeral)
    show "rne (12610078956637389 / 2 ^ 54 / (1 / 2 ^ 53)) = 6305039478318694"
      by (rule rne_tie_even [where m = "6305039478318694"]) simp_all
  qed simp
  then show ?thesis
    by (simp add: js_sub_def)
qed

lemma cook_example_3: "js_mul 1295 (3152519739159347 / 4503599627370496) = 7973658324631551 / 2 ^ 43"
proof -
  have "fl64 (4082513062211354365 / 2 ^ 52) = real_of_int (7973658324631551) * (1 / 2 ^ 43)"
  proof (rule fl64_eq)
    show "ulp (4082513062211354365 / 2 ^ 52) = 1 / 2 ^ 43"
      using ulp_binade [of "9" "4082513062211354365 / 2 ^ 52"] by (simp add: powr_neg_numeral)
    show "rne (4082513062211354365 / 2 ^ 52 / (1 / 2 ^ 43)) = 7973658324631551"
      by (rule rne_unique) simp
  qed simp
  then show ?thesis
    by (simp add: js_mul_def)
qed

lemma cook_example_4: "js_add (7973658324631551 / 8796093022208) 60 = 8501423905964031 / 2 ^ 43"
proof -
  have "fl64 (8501423905964031 / 2 ^ 43) = real_of_int (8501423905964031) * (1 / 2 ^ 43)"
  proof (rule fl64_eq)
    show "ulp (8501423905964031 / 2 ^ 43) = 1 / 2 ^ 43"
      using ulp_binade [of "9" "8501423905964031 / 2 ^ 43"] by (simp add: powr_neg_numeral)
    show "rne (8501423905964031 / 2 ^ 43 / (1 / 2 ^ 43)) = 8501423905964031"
      by (rule rne_unique) simp
  qed simp
  then show ?thesis
    by (simp add: js_add_def)
qed

lemma convert_example_1: "fl64 (10103 / 100) = 3554677112134697 / 2 ^ 45"
proof -
  have "fl64 (10103 / 100) = real_of_int (7109354224269394) * (1 / 2 ^ 46)"
  proof (rule fl64_eq)
    show "ulp (10103 / 100) = 1 / 2 ^ 46"
      using ulp_binade [of "6" "10103 / 100"] by (simp add: powr_neg_numeral)
    show "rne (10103 / 100 / (1 / 2 ^ 46)) = 7109354224269394"
      by (rule rne_unique) simp
  qed simp
  then show ?thesis
    by simp
qed

lemma convert_example_2: "js_sub (3554677112134697 / 35184372088832) 32 = 2428777205292073 / 2 ^ 45"
proof -
  have "fl64 (2428777205292073 / 2 ^ 45) = real_of_int (4857554410584146) * (1 / 2 ^ 46)"
  proof (rule fl64_eq)
    show "ulp (2428777205292073 / 2 ^ 45) = 1 / 2 ^ 46"
      using ulp_binade [of "6" "2428777205292073 / 2 ^ 45"] by (simp add: powr_neg_numeral)
    show "rne (2428777205292073 / 2 ^ 45 / (1 / 2 ^ 46)) = 4857554410584146"
      by (rule rne_unique) simp
  qed simp
  then show ?thesis
    by (simp add: js_sub_def)
qed

lemma convert_example_3: "js_mul (2428777205292073 / 35184372088832) 5 = 3035971506615091 / 2 ^ 43"
proof -
  have "fl64 (12143886026460365 / 2 ^ 45) = real_of_int (6071943013230182) * (1 / 2 ^ 44)"
  proof (rule fl64_eq)
    show "ulp (12143886026460365 / 2 ^ 45) = 1 / 2 ^ 44"
      using ulp_binade [of "8" "12143886026460365 / 2 ^ 45"] by (simp add: powr_neg_numeral)
    show "rne (12143886026460365 / 2 ^ 45 / (1 / 2 ^ 44)) = 6071943013230182"
      by (rule rne_tie_even [where m = "6071943013230182"]) simp_all
  qed simp
  then show ?thesis
    by (simp add: js_mul_def)
qed

lemma convert_example_4: "js_quot (3035971506615091 / 8796093022208) 9 = 1349320669606707 / 2 ^ 45"
proof -
  have "fl64 (3035971506615091 / 79164837199872) = real_of_int (5397282678426828) * (1 / 2 ^ 47)"
  proof (rule fl64_eq)
    show "ulp (3035971506615091 / 79164837199872) = 1 / 2 ^ 47"
      using ulp_binade [of "5" "3035971506615091 / 79164837199872"] by (simp add: powr_neg_numeral)
    show "rne (3035971506615091 / 79164837199872 / (1 / 2 ^ 47)) = 5397282678426828"
      by (rule rne_unique) simp
  qed simp
  then show ?thesis
    by (simp add: js_quot_def)
qed

lemma convert_example_5: "js_mul (1349320669606707 / 35184372088832) 10 = 6746603348033535 / 2 ^ 44"
proof -
  have "fl64 (6746603348033535 / 2 ^ 44) = real_of_int (6746603348033535) * (1 / 2 ^ 44)"
  proof (rule fl64_eq)
    show "ulp (6746603348033535 / 2 ^ 44) = 1 / 2 ^ 44"
      using ulp_binade [of "8" "6746603348033535 / 2 ^ 44"] by (simp add: powr_neg_numeral)
    show "rne (6746603348033535 / 2 ^ 44 / (1 / 2 ^ 44)) = 6746603348033535"
      by (rule rne_unique) simp
  qed simp
  then show ?thesis
    by (simp add: js_mul_def)
qed

lemma trend_example_1: "js_quot 10560000 3600000 = 6605279453476727 / 2 ^ 51"
proof -
  have "fl64 (44 / 15) = real_of_int (6605279453476727) * (1 / 2 ^ 51)"
  proof (rule fl64_eq)
    show "ulp (44 / 15) = 1 / 2 ^ 51"
      using ulp_binade [of "1" "44 / 15"] by (simp add: powr_neg_numeral)
    show "rne (44 / 15 / (1 / 2 ^ 51)) = 6605279453476727"
      by (rule rne_unique) simp
  qed simp
  then show ?thesis
    by (simp add: js_quot_def)
qed

lemma trend_example_2: "js_quot (- 11) (6605279453476727 / 2251799813685248) = - 8444249301319681 / 2 ^ 51"
proof -
  have "fl64 (- 24769797950537728 / 6605279453476727) = real_of_int (- 8444249301319681) * (1 / 2 ^ 51)"
  proof (rule fl64_eq)
    show "ulp (- 24769797950537728 / 6605279453476727) = 1 / 2 ^ 51"
      using ulp_binade [of "1" "- 24769797950537728 / 6605279453476727"] by (simp add: powr_neg_numeral)
    show "rne (- 24769797950537728 / 6605279453476727 / (1 / 2 ^ 51)) = - 8444249301319681"
      by (rule rne_unique) simp
  qed simp
  then show ?thesis
    by (simp add: js_quot_def)
qed

lemma trend_example_3: "js_mul (- (8444249301319681 / 2251799813685248)) 10 = - 5277655813324801 / 2 ^ 47"
proof -
  have "fl64 (- 42221246506598405 / 2 ^ 50) = real_of_int (- 5277655813324801) * (1 / 2 ^ 47)"
  proof (rule fl64_eq)
    show "ulp (- 42221246506598405 / 2 ^ 50) = 1 / 2 ^ 47"
      using ulp_binade [of "5" "- 42221246506598405 / 2 ^ 50"] by (simp add: powr_neg_numeral)
    show "rne (- 42221246506598405 / 2 ^ 50 / (1 / 2 ^ 47)) = - 5277655813324801"
      by (rule rne_unique) simp
  qed simp
  then show ?thesis
    by (simp add: js_mul_def)
qed

lemma stall_example_1: "fl64 (753 / 5) = 5298766436578099 / 2 ^ 45"
proof -
  have "fl64 (753 / 5) = real_of_int (5298766436578099) * (1 / 2 ^ 45)"
  proof (rule fl64_eq)
    show "ulp (753 / 5) = 1 / 2 ^ 45"
      using ulp_binade [of "7" "753 / 5"] by (simp add: powr_neg_numeral)
    show "rne (753 / 5 / (1 / 2 ^ 45)) = 5298766436578099"
      by (rule rne_unique) simp
  qed simp
  then show ?thesis
    by simp
qed

lemma stall_example_2: "js_sub (5298766436578099 / 35184372088832) 150 = 21110623253299 / 2 ^ 45"
proof -
  have "fl64 (21110623253299 / 2 ^ 45) = real_of_int (5404319552844544) * (1 / 2 ^ 53)"
  proof (rule fl64_eq)
    show "ulp (21110623253299 / 2 ^ 45) = 1 / 2 ^ 53"
      using ulp_binade [of "- 1" "21110623253299 / 2 ^ 45"] by (simp add: powr_neg_numeral)
    show "rne (21110623253299 / 2 ^ 45 / (1 / 2 ^ 53)) = 5404319552844544"
      by (rule rne_unique) simp
  qed simp
  then show ?thesis
    by (simp add: js_sub_def)
qed

lemma stall_example_3: "js_quot (21110623253299 / 35184372088832) 12 = 7205759403792725 / 2 ^ 57"
proof -
  have "fl64 (21110623253299 / 422212465065984) = real_of_int (7205759403792725) * (1 / 2 ^ 57)"
  proof (rule fl64_eq)
    show "ulp (21110623253299 / 422212465065984) = 1 / 2 ^ 57"
      using ulp_binade [of "- 5" "21110623253299 / 422212465065984"] by (simp add: powr_neg_numeral)
    show "rne (21110623253299 / 422212465065984 / (1 / 2 ^ 57)) = 7205759403792725"
      by (rule rne_unique) simp
  qed simp
  then show ?thesis
    by (simp add: js_quot_def)
qed

lemma stall_example_4: "js_mul (7205759403792725 / 144115188075855872) 60 = 105553116266495 / 2 ^ 45"
proof -
  have "fl64 (108086391056890875 / 2 ^ 55) = real_of_int (6755399441055680) * (1 / 2 ^ 51)"
  proof (rule fl64_eq)
    show "ulp (108086391056890875 / 2 ^ 55) = 1 / 2 ^ 51"
      using ulp_binade [of "1" "108086391056890875 / 2 ^ 55"] by (simp add: powr_neg_numeral)
    show "rne (108086391056890875 / 2 ^ 55 / (1 / 2 ^ 51)) = 6755399441055680"
      by (rule rne_unique) simp
  qed simp
  then show ?thesis
    by (simp add: js_mul_def)
qed

lemma percent_example_1: "js_quot 23 80 = 2589569785738035 / 2 ^ 53"
proof -
  have "fl64 (23 / 80) = real_of_int (5179139571476070) * (1 / 2 ^ 54)"
  proof (rule fl64_eq)
    show "ulp (23 / 80) = 1 / 2 ^ 54"
      using ulp_binade [of "- 2" "23 / 80"] by (simp add: powr_neg_numeral)
    show "rne (23 / 80 / (1 / 2 ^ 54)) = 5179139571476070"
      by (rule rne_unique) simp
  qed simp
  then show ?thesis
    by (simp add: js_quot_def)
qed

lemma percent_example_2: "js_mul (2589569785738035 / 9007199254740992) 100 = 8092405580431359 / 2 ^ 48"
proof -
  have "fl64 (64739244643450875 / 2 ^ 51) = real_of_int (8092405580431359) * (1 / 2 ^ 48)"
  proof (rule fl64_eq)
    show "ulp (64739244643450875 / 2 ^ 51) = 1 / 2 ^ 48"
      using ulp_binade [of "4" "64739244643450875 / 2 ^ 51"] by (simp add: powr_neg_numeral)
    show "rne (64739244643450875 / 2 ^ 51 / (1 / 2 ^ 48)) = 8092405580431359"
      by (rule rne_unique) simp
  qed simp
  then show ?thesis
    by (simp add: js_mul_def)
qed

lemma percent_example_3: "js_mul (8092405580431359 / 281474976710656) 10 = 5057753487769599 / 2 ^ 44"
proof -
  have "fl64 (40462027902156795 / 2 ^ 47) = real_of_int (5057753487769599) * (1 / 2 ^ 44)"
  proof (rule fl64_eq)
    show "ulp (40462027902156795 / 2 ^ 47) = 1 / 2 ^ 44"
      using ulp_binade [of "8" "40462027902156795 / 2 ^ 47"] by (simp add: powr_neg_numeral)
    show "rne (40462027902156795 / 2 ^ 47 / (1 / 2 ^ 44)) = 5057753487769599"
      by (rule rne_unique) simp
  qed simp
  then show ?thesis
    by (simp add: js_mul_def)
qed

subsection \<open>The sample knowledge base\<close>

lemma sample_lookup:
  "PROTEIN_PROFILES sample_constants ''beef_brisket'' = Some sample_brisket"
  "PROTEIN_PROFILES sample_constants ''chicken_breast'' = Some sample_chicken"
  "PROTEIN_PROFILES sample_constants ''unicorn'' = None"
  "PROTEIN_PROFILES sample_constants ''constructor'' = None"
  by (simp_all add: sample_constants_def)

lemma sample_utc:
  "getMinutes sample_constants d = (d div 60000) mod 60"
  "setMinutes sample_constants d m = d - ((d div 60000) mod 60) * 60000 + js_trunc m * 60000"
  by (simp_all add: getMinutes_def setMinutes_def LocalTime_def sample_constants_def Let_def)

lemma getProteinProfile_own:
  "PROTEIN_PROFILES K pid = Some profile \<Longrightarrow> getProteinProfile K pid = Own profile"
  by (simp add: getProteinProfile_def)

lemma getProteinProfile_absent:
  "PROTEIN_PROFILES K pid = None \<Longrightarrow>
   getProteinProfile K pid
     = (if pid \<in> set Object_prototype_names then Inherited else Undefined)"
  by (simp add: getProteinProfile_def)

lemma prototype_names:
  "''constructor'' \<in> set Object_prototype_names"
  "''unicorn'' \<notin> set Object_prototype_names"
  by (simp_all add: Object_prototype_names_def)


subsection \<open>Baseline and adjustment of estimateCookTime\<close>

text \<open>Only \<open>smoke_hot_fast\<close> has a name that contains \<open>hot_fast\<close>.\<close>

lemma hot_fast_iff: "str_includes ''hot_fast'' (method_name m) = (m = smoke_hot_fast)"
  by (cases m) simp_all

lemma baseTemp_cases: "baseTemp m = (if m = smoke_hot_fast then 300 else 225)"
  by (simp add: baseTemp_def hot_fast_iff HOT_FAST_TEMP_def DEFAULT_SMOKER_TEMP_def)

lemma tempAdjustment_supplied:
  "st \<noteq> 0 \<Longrightarrow>
   tempAdjustment m (Some st)
     = max (1 / 2) (min (3 / 2) (js_sub 1 (js_quot (js_sub st (baseTemp m)) 250)))"
  by (simp add: tempAdjustment_def)

lemma tempAdjustment_absent: "tempAdjustment m None = 1"
  by (simp add: tempAdjustment_def)

lemma tempAdjustment_baseline: "tempAdjustment m (Some (baseTemp m)) = 1"
  by (simp add: tempAdjustment_def baseTemp_cases js_sub_def js_quot_def)

subsection \<open>The window of recent readings\<close>

lemma inStallRange_iff:
  "inStallRange (stallRange profile) t
     = (\<exists>z. stallRange profile = Some z \<and> range_start z \<le> t \<and> t \<le> range_end z)"
  by (cases "stallRange profile") (auto simp add: inStallRange_def)

lemma ends_nth:
  assumes "xs \<noteq> []"
  shows "xs ! 0 = hd xs" and "xs ! (length xs - 1) = last xs"
  using hd_conv_nth [OF assms] last_conv_nth [OF assms] by simp_all

lemma slice_last_nonempty:
  assumes "xs \<noteq> []" and "0 < n"
  shows "slice_last n xs \<noteq> []"
proof -
  have "length xs - n < length xs"
    using assms by (simp add: diff_less)
  then show ?thesis
    unfolding slice_last_def by simp
qed

text \<open>A time span computed by the source is positive exactly when the timestamps say so.\<close>

lemma span_pos_iff:
  "0 < js_quot (js_sub (real_of_int a) (real_of_int b)) c \<longleftrightarrow>
     0 < (real_of_int a - real_of_int b) / c"
  by (simp add: js_quot_def js_sub_def zero_less_divide_iff)

lemma fl64_abs_bound:
  assumes "\<bar>x\<bar> \<le> b"
  shows "\<bar>fl64 x\<bar> \<le> b * (1001 / 1000)"
proof -
  have "\<bar>x\<bar> * (1001 / 1000) \<le> b * (1001 / 1000)"
    using assms by (intro mult_right_mono) simp_all
  then show ?thesis
    using fl64_abs_le [of x] by (rule order_trans [rotated])
qed

lemma rate_small:
  assumes "\<bar>a / b\<bar> \<le> 1 / 25"
  shows "js_mul (js_quot a b) 60 < 3"
proof -
  have q: "\<bar>js_quot a b\<bar> \<le> 1001 / 25000"
    using fl64_abs_bound [OF assms] unfolding js_quot_def by simp
  have "\<bar>js_quot a b * 60\<bar> = \<bar>js_quot a b\<bar> * 60"
    by (simp add: abs_mult)
  then have "\<bar>js_quot a b * 60\<bar> \<le> 5 / 2"
    using q by linarith
  then have "\<bar>js_mul (js_quot a b) 60\<bar> \<le> 5 / 2 * (1001 / 1000)"
    unfolding js_mul_def by (rule fl64_abs_bound)
  then show ?thesis by simp
qed

subsection \<open>The trend of analyzeTemperature\<close>

lemma trendOf_readings:
  assumes "2 \<le> length rs"
  shows "trendOf range_opt cur (Some rs) =
     (let recent = drop (length rs - 5) rs;
          hours = js_quot (js_sub (real_of_int (timestamp (last recent)))
                                  (real_of_int (timestamp (hd recent)))) 3600000;
          rate = js_quot (js_sub (temp (last recent)) (temp (hd recent))) hours
      in if 0 < hours then
           (if \<bar>rate\<bar> < 2 then (if inStallRange range_opt cur then Stalled else Stable)
            else if 0 < rate then Rising else Falling, rate)
         else (Stable, 0))"
proof -
  have "rs \<noteq> []" using assms by auto
  then have ne: "slice_last 5 rs \<noteq> []"
    by (rule slice_last_nonempty) simp
  have k: "(1000 * 60 * 60 :: real) = 3600000" by simp
  show ?thesis
    unfolding trendOf_def option.case Let_def rateOfChange_def timeChangeHours_def k
      ends_nth [OF ne]
    unfolding slice_last_def
    by (simp only: assms if_True)
qed

lemma round1_0: "round1 0 = 0"
  by (simp add: round1_def js_quot_def js_mul_def)

lemma rate_bands:
  fixes rate :: real
  shows "2 \<le> rate \<Longrightarrow> \<not> \<bar>rate\<bar> < 2 \<and> 0 < rate"
    and "rate \<le> - 2 \<Longrightarrow> \<not> \<bar>rate\<bar> < 2 \<and> \<not> 0 < rate"
  by simp_all

lemma analyzeTemperature_trend:
  assumes "PROTEIN_PROFILES K pid = Some profile"
  shows "\<exists>a. analyzeTemperature K cur tgt pid cm cst prev = Inr a
           \<and> trend a = fst (trendOf (stallRange profile) cur prev)
           \<and> trendRatePerHour a = round1 (snd (trendOf (stallRange profile) cur prev))"
  using assms
  by (simp add: analyzeTemperature_def getProteinProfile_own analysis_def Let_def)

subsection \<open>The branches of detectStall\<close>

lemma tempRatePerHour_readings:
  assumes "recent \<noteq> []"
  shows "tempRatePerHour recent =
     (let dtemp = js_sub (temp (last recent)) (temp (hd recent));
          dmin = js_quot (js_sub (real_of_int (timestamp (last recent)))
                                 (real_of_int (timestamp (hd recent)))) 60000
      in if 0 < dmin then js_mul (js_quot dtemp dmin) 60 else 0)"
proof -
  have k: "(1000 * 60 :: real) = 60000" by simp
  show ?thesis
    unfolding tempRatePerHour_def Let_def k ends_nth [OF assms] ..
qed

lemma detectStall_no_range:
  assumes "PROTEIN_PROFILES K pid = Some profile" and "stallRange profile = None"
  shows "detectStall K pid cur rs now =
           Inr \<lparr>isStalled = False, stallDurationMinutes = 0, inStallZone = False,
                recommendation = NoTypicalStall (displayName profile)\<rparr>"
  using assms by (simp add: detectStall_def getProteinProfile_own)

lemma detectStall_outside:
  assumes "PROTEIN_PROFILES K pid = Some profile" and "stallRange profile = Some z"
      and "cur < range_start z \<or> range_end z < cur"
  shows "\<exists>r. detectStall K pid cur rs now = Inr r \<and> \<not> isStalled r
           \<and> stallDurationMinutes r = 0 \<and> \<not> inStallZone r"
  using assms by (auto simp add: detectStall_def getProteinProfile_own Let_def)

lemma detectStall_inside:
  assumes "PROTEIN_PROFILES K pid = Some profile" and "stallRange profile = Some z"
      and "range_start z \<le> cur" and "cur \<le> range_end z"
      and "3 \<le> length (slice_last 6 rs)"
  shows "\<exists>r. detectStall K pid cur rs now = Inr r
           \<and> isStalled r = (tempRatePerHour (slice_last 6 rs) < 3) \<and> inStallZone r"
proof -
  have "\<not> length (slice_last 6 rs) < 3" using assms(5) by simp
  then show ?thesis
    using assms(1-4) by (simp add: detectStall_def getProteinProfile_own Let_def)
qed

section \<open>C9: convertTemperature\<close>

text \<open>
  The round trip is exact on every integer of the range: rounding to a tenth moves the
  Celsius value by at most 0.05, hence the Fahrenheit value by at most 0.09, the seven
  roundings of the arithmetic add less than a millionth each, and rounding to an integer
  undoes both.
\<close>

lemma round_trip_bounds:
  fixes n c d k e f g h B :: real
  assumes "B = (n - 32) * 5"
   "B / 9 - 1 / 1000000 \<le> c" "c \<le> B / 9 + 1 / 1000000"
   "c * 10 - 1 / 1000000 \<le> d" "d \<le> c * 10 + 1 / 1000000"
   "d - 1 / 2 \<le> k" "k \<le> d + 1 / 2"
   "k / 10 - 1 / 1000000 \<le> e" "e \<le> k / 10 + 1 / 1000000"
   "e * 9 - 1 / 1000000 \<le> f" "f \<le> e * 9 + 1 / 1000000"
   "f / 5 - 1 / 1000000 \<le> g" "g \<le> f / 5 + 1 / 1000000"
   "g + 32 - 1 / 1000000 \<le> h" "h \<le> g + 32 + 1 / 1000000"
  shows "n - 1 / 2 < h \<and> h < n + 1 / 2"
proof -
  have k: "B * 10 / 9 - 1 / 2 - 1 / 10000 \<le> k" "k \<le> B * 10 / 9 + 1 / 2 + 1 / 10000"
    using assms(2-7) by linarith+
  have f: "k * 9 / 10 - 1 / 10000 \<le> f" "f \<le> k * 9 / 10 + 1 / 10000"
    using assms(8-11) by linarith+
  have h: "f / 5 + 32 - 1 / 10000 \<le> h" "h \<le> f / 5 + 32 + 1 / 10000"
    using assms(12-15) by linarith+
  have B: "B = 5 * n - 160" using assms(1) by simp
  have "n - 1 / 2 < h" using B k f h by linarith
  moreover have "h < n + 1 / 2" using B k f h by linarith
  ultimately show ?thesis by simp
qed

lemma round_trip_exact:
  assumes "- 40 \<le> n" and "n \<le> 500"
  shows "convertTemperature (convertTemperature (real_of_int n) fahrenheit celsius)
           celsius fahrenheit = real_of_int n"
proof -
  define B :: real where "B = real_of_int ((n - 32) * 5)"
  define c where "c = fl64 (B / 9)"
  define d where "d = fl64 (c * 10)"
  define k where "k = round d"
  define e where "e = fl64 (real_of_int k / 10)"
  define f where "f = fl64 (e * 9)"
  define g where "g = fl64 (f / 5)"
  define h where "h = fl64 (g + 32)"
  have Bv: "B = (real_of_int n - 32) * 5"
    unfolding B_def by simp
  have Bb: "- 360 \<le> B" "B \<le> 2340"
    using assms unfolding Bv by simp_all
  have a: "js_sub (real_of_int n) 32 = real_of_int (n - 32)"
    using assms fl64_of_int [of "n - 32"] by (simp add: js_sub_def)
  have b: "js_mul (real_of_int (n - 32)) 5 = B"
    using assms fl64_of_int [of "(n - 32) * 5"] by (simp add: js_mul_def B_def)
  have c: "\<bar>c - B / 9\<bar> \<le> 1 / 1000000"
    unfolding c_def using Bb by (intro fl64_near) (simp add: abs_if)
  have d: "\<bar>d - c * 10\<bar> \<le> 1 / 1000000"
    unfolding d_def using Bb c by (intro fl64_near) (simp add: abs_if split: if_splits)
  have k: "\<bar>real_of_int k - d\<bar> \<le> 1 / 2"
    unfolding k_def by (rule of_int_round_abs_le)
  have e: "\<bar>e - real_of_int k / 10\<bar> \<le> 1 / 1000000"
    unfolding e_def using Bb c d k by (intro fl64_near) (simp add: abs_if split: if_splits)
  have f: "\<bar>f - e * 9\<bar> \<le> 1 / 1000000"
    unfolding f_def using Bb c d k e by (intro fl64_near) (simp add: abs_if split: if_splits)
  have g: "\<bar>g - f / 5\<bar> \<le> 1 / 1000000"
    unfolding g_def using Bb c d k e f by (intro fl64_near) (simp add: abs_if split: if_splits)
  have h: "\<bar>h - (g + 32)\<bar> \<le> 1 / 1000000"
    unfolding h_def using Bb c d k e f g by (intro fl64_near) (simp add: abs_if split: if_splits)
  note bounds = c [unfolded abs_diff_le_iff] d [unfolded abs_diff_le_iff]
    k [unfolded abs_diff_le_iff] e [unfolded abs_diff_le_iff] f [unfolded abs_diff_le_iff]
    g [unfolded abs_diff_le_iff] h [unfolded abs_diff_le_iff]
  have "real_of_int n - 1 / 2 < h \<and> h < real_of_int n + 1 / 2"
    using Bv bounds by (intro round_trip_bounds [where B = B and c = c and d = d
          and k = "real_of_int k" and e = e and f = f and g = g]) simp_all
  then have "\<bar>h - real_of_int n\<bar> < 1 / 2"
    unfolding abs_diff_less_iff by linarith
  then have r: "round h = n"
    by (rule round_unique')
  have "convertTemperature (real_of_int n) fahrenheit celsius
          = js_quot (real_of_int (round (js_mul (js_quot
              (js_mul (js_sub (real_of_int n) 32) 5) 9) 10))) 10"
    by (simp add: convertTemperature_def)
  also have "\<dots> = e"
    unfolding a b by (simp add: js_quot_def js_mul_def e_def k_def d_def c_def)
  finally have fc: "convertTemperature (real_of_int n) fahrenheit celsius = e" .
  have "convertTemperature e celsius fahrenheit = real_of_int (round h)"
    by (simp add: convertTemperature_def f_def g_def h_def js_quot_def js_mul_def js_add_def)
  then show ?thesis
    using fc r by simp
qed

text \<open>
  C9. \<open>convertTemperature\<close> is the identity when the two units are equal; Fahrenheit to
  Celsius is \<open>Math.round(((v - 32) * 5) / 9 * 10) / 10\<close> in the arithmetic of the source,
  that is the binary64 value of a whole number of tenths; Celsius to Fahrenheit is
  \<open>Math.round((v * 9) / 5 + 32)\<close>, an integer; and for every integer \<open>v\<close> in
  \<open>[-40, 500]\<close> the round trip F to C to F differs from \<open>v\<close> by at most 1.
\<close>

theorem convertTemperature_spec:
  "convertTemperature v u u = v
   \<and> convertTemperature v fahrenheit celsius
       = js_quot (real_of_int (round (js_mul (js_quot (js_mul (js_sub v 32) 5) 9) 10))) 10
   \<and> (\<exists>k::int. convertTemperature v fahrenheit celsius = js_quot (real_of_int k) 10)
   \<and> convertTemperature v celsius fahrenheit
       = real_of_int (round (js_add (js_quot (js_mul v 9) 5) 32))
   \<and> (\<forall>n::int. - 40 \<le> n \<and> n \<le> 500 \<longrightarrow>
        \<bar>convertTemperature (convertTemperature (real_of_int n) fahrenheit celsius)
            celsius fahrenheit - real_of_int n\<bar> \<le> 1)"
proof (intro conjI allI impI)
  show "convertTemperature v u u = v"
    by (simp add: convertTemperature_def)
  show fc: "convertTemperature v fahrenheit celsius
       = js_quot (real_of_int (round (js_mul (js_quot (js_mul (js_sub v 32) 5) 9) 10))) 10"
    by (simp add: convertTemperature_def)
  show "\<exists>k::int. convertTemperature v fahrenheit celsius = js_quot (real_of_int k) 10"
    unfolding fc by (rule exI) (rule refl)
  show "convertTemperature v celsius fahrenheit
       = real_of_int (round (js_add (js_quot (js_mul v 9) 5) 32))"
    by (simp add: convertTemperature_def)
next
  fix n :: int
  assume "- 40 \<le> n \<and> n \<le> 500"
  then show "\<bar>convertTemperature (convertTemperature (real_of_int n) fahrenheit celsius)
            celsius fahrenheit - real_of_int n\<bar> \<le> 1"
    by (simp add: round_trip_exact)
qed

theorem convertTemperature_spec_witness:
  "convertTemperature 203 fahrenheit fahrenheit = 203
   \<and> convertTemperature 203 fahrenheit celsius = 95
   \<and> convertTemperature 95 celsius fahrenheit = 203
   \<and> convertTemperature (fl64 (10103 / 100)) fahrenheit celsius = js_quot 383 10
   \<and> (- 40 \<le> (203::int) \<and> (203::int) \<le> 500)
   \<and> \<bar>convertTemperature (convertTemperature (real_of_int 203) fahrenheit celsius)
          celsius fahrenheit - real_of_int 203\<bar> \<le> 1"
proof -
  have a: "convertTemperature 203 fahrenheit celsius = 95"
    by (simp add: convertTemperature_def js_sub_def js_mul_def js_quot_def)
  have b: "convertTemperature 95 celsius fahrenheit = 203"
    by (simp add: convertTemperature_def js_add_def js_mul_def js_quot_def)
  have r: "round (6746603348033535 / 2 ^ 44 :: real) = 383"
    by (rule round_unique') simp
  have c: "convertTemperature (fl64 (10103 / 100)) fahrenheit celsius = js_quot 383 10"
    using convertTemperature_spec [of "fl64 (10103 / 100)" fahrenheit] r
    by (simp add: convert_example_1 convert_example_2 convert_example_3 convert_example_4
        convert_example_5)
  have "\<forall>n::int. - 40 \<le> n \<and> n \<le> 500 \<longrightarrow>
        \<bar>convertTemperature (convertTemperature (real_of_int n) fahrenheit celsius)
            celsius fahrenheit - real_of_int n\<bar> \<le> 1"
    using convertTemperature_spec [of 203 fahrenheit] by blast
  then have "\<bar>convertTemperature (convertTemperature (real_of_int 203) fahrenheit celsius)
          celsius fahrenheit - real_of_int 203\<bar> \<le> 1"
    by (rule allE [where x = 203]) simp
  with a b c show ?thesis
    by (simp add: convertTemperature_def)
qed

section \<open>C1: an identifier that is not in the knowledge base\<close>

text \<open>
  C1, as amended. For a protein identifier that is not a key of \<open>PROTEIN_PROFILES\<close>,
  \<open>getTargetTemperature\<close>, \<open>estimateCookTime\<close> and \<open>calculateStartTime\<close> fail,
  whatever their other arguments; and when the identifier is also not the name of a
  property that the table inherits from \<open>Object.prototype\<close>, \<open>analyzeTemperature\<close>,
  \<open>detectStall\<close> and \<open>calculateRestTime\<close> fail as well. The failure is the
  \<open>TypeError\<close> of reading a property of \<open>undefined\<close>, not a dedicated
  unknown-protein error.
\<close>

theorem unknown_protein_fails:
  assumes "PROTEIN_PROFILES K pid = None"
  shows "getTargetTemperature K pid d = Inl TypeError
       \<and> estimateCookTime K pid w m st now = Inl TypeError
       \<and> calculateStartTime K pid w m serve st now = Inl TypeError
       \<and> (pid \<notin> set Object_prototype_names \<longrightarrow>
            analyzeTemperature K cur tgt pid cm cst rs = Inl TypeError
            \<and> detectStall K pid cur readings now = Inl TypeError
            \<and> calculateRestTime K pid cur tf = Inl TypeError)"
  using assms
  by (simp add: getTargetTemperature_def estimateCookTime_def calculateStartTime_def
      analyzeTemperature_def detectStall_def calculateRestTime_def getProteinProfile_absent)

theorem unknown_protein_fails_witness:
  "PROTEIN_PROFILES sample_constants ''unicorn'' = None
   \<and> ''unicorn'' \<notin> set Object_prototype_names
   \<and> getTargetTemperature sample_constants ''unicorn'' None = Inl TypeError
   \<and> estimateCookTime sample_constants ''unicorn'' 14 smoke_low_slow None 0 = Inl TypeError
   \<and> calculateStartTime sample_constants ''unicorn'' 14 smoke_low_slow 0 None 0 = Inl TypeError
   \<and> analyzeTemperature sample_constants 165 203 ''unicorn'' None None None = Inl TypeError
   \<and> detectStall sample_constants ''unicorn'' 157 [] 0 = Inl TypeError
   \<and> calculateRestTime sample_constants ''unicorn'' 120 None = Inl TypeError"
  using unknown_protein_fails [OF sample_lookup(3)] sample_lookup(3) prototype_names(2)
  by simp

text \<open>
  C1 as stated does not hold. At the identifier \<open>unicorn\<close>, which the sample knowledge
  base does not contain, no operation fails with \<open>UnknownProtein\<close>; and at the
  identifier \<open>constructor\<close>, which it does not contain either, \<open>detectStall\<close>,
  \<open>calculateRestTime\<close> and \<open>analyzeTemperature\<close> return a result, computed from the
  function that the table object inherits under that name.
\<close>

theorem unknown_protein_counterexample:
  "PROTEIN_PROFILES sample_constants ''unicorn'' = None
   \<and> getTargetTemperature sample_constants ''unicorn'' None \<noteq> Inl UnknownProtein
   \<and> estimateCookTime sample_constants ''unicorn'' 14 smoke_low_slow None 0 \<noteq> Inl UnknownProtein
   \<and> calculateStartTime sample_constants ''unicorn'' 14 smoke_low_slow 0 None 0 \<noteq> Inl UnknownProtein
   \<and> analyzeTemperature sample_constants 165 203 ''unicorn'' None None None \<noteq> Inl UnknownProtein
   \<and> detectStall sample_constants ''unicorn'' 157 [] 0 \<noteq> Inl UnknownProtein
   \<and> calculateRestTime sample_constants ''unicorn'' 120 None \<noteq> Inl UnknownProtein
   \<and> PROTEIN_PROFILES sample_constants ''constructor'' = None
   \<and> detectStall sample_constants ''constructor'' 157 [] 0
       = Inr \<lparr>isStalled = False, stallDurationMinutes = 0, inStallZone = False,
              recommendation = NoTypicalStall ''undefined''\<rparr>
   \<and> calculateRestTime sample_constants ''constructor'' 120 None
       = Inr \<lparr>recommendedRestMinutes = None, expectedCarryover = None,
              expectedFinalTemp = NaN,
              instructions = [NoRestRequired ''undefined'', ServeImmediately]\<rparr>
   \<and> \<not> isl (analyzeTemperature sample_constants 165 203 ''constructor'' None None None)"
  by (simp add: sample_lookup prototype_names getTargetTemperature_def estimateCookTime_def
      calculateStartTime_def analyzeTemperature_def detectStall_def calculateRestTime_def
      getProteinProfile_absent)

section \<open>C2: what depends on the clock\<close>

text \<open>
  C2, as amended. \<open>estimateCookTime\<close>, \<open>calculateStartTime\<close> and \<open>detectStall\<close> read
  the wall clock (\<open>new Date()\<close>). Two calls with identical arguments, at any two clock
  values, agree on failure and on every field of the result except
  \<open>estimatedDoneTime\<close> (of the estimate, also inside \<open>cookTime\<close>) and, for a result
  that reports a stall, \<open>stallDurationMinutes\<close> and \<open>recommendation\<close>. The other
  operations have no clock argument at all in this embedding, because their bodies
  never read it.
\<close>

theorem clock_only_in_time_fields:
  "map_sum id (\<lambda>e. e\<lparr>estimatedDoneTime := 0\<rparr>) (estimateCookTime K pid w m st now1)
     = map_sum id (\<lambda>e. e\<lparr>estimatedDoneTime := 0\<rparr>) (estimateCookTime K pid w m st now2)
   \<and> map_sum id (\<lambda>r. (startTime r, restTime r, bufferMinutes r,
                        (cookTime r)\<lparr>estimatedDoneTime := 0\<rparr>))
        (calculateStartTime K pid w m serve st now1)
     = map_sum id (\<lambda>r. (startTime r, restTime r, bufferMinutes r,
                        (cookTime r)\<lparr>estimatedDoneTime := 0\<rparr>))
        (calculateStartTime K pid w m serve st now2)
   \<and> map_sum id (\<lambda>r. (isStalled r, inStallZone r)) (detectStall K pid cur rs now1)
     = map_sum id (\<lambda>r. (isStalled r, inStallZone r)) (detectStall K pid cur rs now2)
   \<and> (\<forall>r. detectStall K pid cur rs now1 = Inr r \<and> \<not> isStalled r
          \<longrightarrow> detectStall K pid cur rs now2 = Inr r)"
proof (intro conjI)
  show "map_sum id (\<lambda>e. e\<lparr>estimatedDoneTime := 0\<rparr>) (estimateCookTime K pid w m st now1)
     = map_sum id (\<lambda>e. e\<lparr>estimatedDoneTime := 0\<rparr>) (estimateCookTime K pid w m st now2)"
    by (simp add: estimateCookTime_def Let_def split: lookup.split)
  show "map_sum id (\<lambda>r. (startTime r, restTime r, bufferMinutes r,
                        (cookTime r)\<lparr>estimatedDoneTime := 0\<rparr>))
        (calculateStartTime K pid w m serve st now1)
     = map_sum id (\<lambda>r. (startTime r, restTime r, bufferMinutes r,
                        (cookTime r)\<lparr>estimatedDoneTime := 0\<rparr>))
        (calculateStartTime K pid w m serve st now2)"
    by (simp add: calculateStartTime_def estimateCookTime_def Let_def split: lookup.split)
  show "map_sum id (\<lambda>r. (isStalled r, inStallZone r)) (detectStall K pid cur rs now1)
     = map_sum id (\<lambda>r. (isStalled r, inStallZone r)) (detectStall K pid cur rs now2)"
    by (simp add: detectStall_def Let_def split: lookup.split option.split)
  show "\<forall>r. detectStall K pid cur rs now1 = Inr r \<and> \<not> isStalled r
          \<longrightarrow> detectStall K pid cur rs now2 = Inr r"
    by (auto simp add: detectStall_def Let_def split: lookup.splits option.splits if_splits)
qed

theorem clock_only_in_time_fields_witness:
  "detectStall sample_constants ''beef_brisket'' 140 [] 0
     = Inr \<lparr>isStalled = False, stallDurationMinutes = 0, inStallZone = False,
            recommendation = ApproachingStallZone 150 175\<rparr>
   \<and> detectStall sample_constants ''beef_brisket'' 140 [] 60000
     = Inr \<lparr>isStalled = False, stallDurationMinutes = 0, inStallZone = False,
            recommendation = ApproachingStallZone 150 175\<rparr>
   \<and> map_sum id (\<lambda>e. e\<lparr>estimatedDoneTime := 0\<rparr>)
        (estimateCookTime sample_constants ''beef_brisket'' 14 smoke_low_slow (Some 225) 0)
     = map_sum id (\<lambda>e. e\<lparr>estimatedDoneTime := 0\<rparr>)
        (estimateCookTime sample_constants ''beef_brisket'' 14 smoke_low_slow (Some 225) 60000)"
proof -
  have first: "detectStall sample_constants ''beef_brisket'' 140 [] 0
     = Inr \<lparr>isStalled = False, stallDurationMinutes = 0, inStallZone = False,
            recommendation = ApproachingStallZone 150 175\<rparr>"
    by (simp add: detectStall_def getProteinProfile_own [OF sample_lookup(1)] sample_brisket_def)
  note all = clock_only_in_time_fields
    [of sample_constants "''beef_brisket''" 14 smoke_low_slow "Some 225" 0 60000 0 140 "[]"]
  from all have "\<forall>r. detectStall sample_constants ''beef_brisket'' 140 [] 0 = Inr r
        \<and> \<not> isStalled r \<longrightarrow> detectStall sample_constants ''beef_brisket'' 140 [] 60000 = Inr r"
    by blast
  with first have second: "detectStall sample_constants ''beef_brisket'' 140 [] 60000
     = Inr \<lparr>isStalled = False, stallDurationMinutes = 0, inStallZone = False,
            recommendation = ApproachingStallZone 150 175\<rparr>"
    by simp
  from all first second show ?thesis by blast
qed

text \<open>
  C2 as stated does not hold: the same call of \<open>estimateCookTime\<close>, and the same call
  of \<open>detectStall\<close>, made at two clock values one minute apart return different results.
\<close>

theorem clock_counterexample:
  "estimateCookTime sample_constants ''beef_brisket'' 14 smoke_low_slow (Some 225) 0
     \<noteq> estimateCookTime sample_constants ''beef_brisket'' 14 smoke_low_slow (Some 225) 60000
   \<and> detectStall sample_constants ''beef_brisket'' 157
        [reading 155 0, reading 156 3600000, reading 157 7200000] 7200000
     \<noteq> detectStall sample_constants ''beef_brisket'' 157
        [reading 155 0, reading 156 3600000, reading 157 7200000] 7260000"
proof -
  have total: "cookMinutes sample_brisket 14 smoke_low_slow (Some 225) = 1040"
    by (simp add: cookMinutes_def tempAdjustment_def baseTemp_cases sample_brisket_def
        js_sub_def js_quot_def js_mul_def js_add_def)
  have mpp: "estimatedTimePerPound sample_brisket smoke_low_slow \<noteq> 0"
    by (simp add: sample_brisket_def)
  have e0: "map_sum id estimatedDoneTime
      (estimateCookTime sample_constants ''beef_brisket'' 14 smoke_low_slow (Some 225) 0)
      = Inr 62400000"
    using mpp
    by (simp add: estimateCookTime_def getProteinProfile_own [OF sample_lookup(1)] total
        Let_def sample_utc js_add_def js_trunc_def)
  have e1: "map_sum id estimatedDoneTime
      (estimateCookTime sample_constants ''beef_brisket'' 14 smoke_low_slow (Some 225) 60000)
      = Inr 62460000"
    using mpp
    by (simp add: estimateCookTime_def getProteinProfile_own [OF sample_lookup(1)] total
        Let_def sample_utc js_add_def js_trunc_def)
  have "\<bar>(2 :: real) / 120\<bar> \<le> 1 / 25"
    by simp
  then have "js_mul (js_quot 2 120) 60 < 3"
    by (rule rate_small)
  then have rate: "tempRatePerHour [reading 155 0, reading 156 3600000, reading 157 7200000] < 3"
    by (simp add: tempRatePerHour_def reading_def Let_def js_sub_def js_quot_def)
  have zone: "stallRange sample_brisket = Some \<lparr>range_start = 150, range_end = 175\<rparr>"
    by (simp add: sample_brisket_def)
  have s0: "map_sum id stallDurationMinutes
      (detectStall sample_constants ''beef_brisket'' 157
        [reading 155 0, reading 156 3600000, reading 157 7200000] 7200000) = Inr 120"
    using rate
    by (simp add: detectStall_def getProteinProfile_own [OF sample_lookup(1)] zone
        slice_last_def Let_def)
       (simp add: reading_def js_sub_def js_quot_def)
  have s1: "map_sum id stallDurationMinutes
      (detectStall sample_constants ''beef_brisket'' 157
        [reading 155 0, reading 156 3600000, reading 157 7200000] 7260000) = Inr 121"
    using rate
    by (simp add: detectStall_def getProteinProfile_own [OF sample_lookup(1)] zone
        slice_last_def Let_def)
       (simp add: reading_def js_sub_def js_quot_def)
  have "estimateCookTime sample_constants ''beef_brisket'' 14 smoke_low_slow (Some 225) 0
     \<noteq> estimateCookTime sample_constants ''beef_brisket'' 14 smoke_low_slow (Some 225) 60000"
    using e0 e1 by auto
  moreover have "detectStall sample_constants ''beef_brisket'' 157
        [reading 155 0, reading 156 3600000, reading 157 7200000] 7200000
     \<noteq> detectStall sample_constants ''beef_brisket'' 157
        [reading 155 0, reading 156 3600000, reading 157 7200000] 7260000"
    using s0 s1 by auto
  ultimately show ?thesis by blast
qed

section \<open>C3: the smoker-temperature adjustment\<close>

text \<open>
  C3, as amended. For a protein of the knowledge base whose minutes per pound for the
  method are not zero, every weight and every supplied smoker temperature other than 0:
  the adjustment is \<open>1 - (smokerTemp - baseline) / 250\<close> clamped to \<open>[0.5, 1.5]\<close>, with
  baseline 300 for \<open>smoke_hot_fast\<close> (the only method whose name contains \<open>hot_fast\<close>)
  and 225 otherwise; the minutes are minutes per pound times weight times adjustment,
  plus 60 exactly when the profile has a stall range, all in the arithmetic of the
  source; and the returned \<open>totalMinutes\<close> is that value rounded to a whole number. A
  smoker temperature equal to the baseline gives adjustment 1 and the same estimate as
  no smoker temperature.
\<close>

theorem smoker_adjustment:
  assumes "PROTEIN_PROFILES K pid = Some profile"
      and "estimatedTimePerPound profile m \<noteq> 0"
      and "st \<noteq> 0"
  shows "(let baseline = (if m = smoke_hot_fast then 300 else 225);
              adjustment =
                max (1 / 2) (min (3 / 2) (js_sub 1 (js_quot (js_sub st baseline) 250)));
              base = js_mul (js_mul (estimatedTimePerPound profile m) w) adjustment;
              total = (if stallRange profile \<noteq> None then js_add base 60 else base)
          in tempAdjustment m (Some st) = adjustment
             \<and> cookMinutes profile w m (Some st) = total
             \<and> (\<exists>e. estimateCookTime K pid w m (Some st) now = Inr e
                    \<and> totalMinutes e = real_of_int (round total))
             \<and> tempAdjustment m (Some baseline) = 1
             \<and> estimateCookTime K pid w m (Some baseline) now
                 = estimateCookTime K pid w m None now)"
proof -
  define baseline :: real where "baseline = (if m = smoke_hot_fast then 300 else 225)"
  define adjustment where
    "adjustment = max (1 / 2) (min (3 / 2) (js_sub 1 (js_quot (js_sub st baseline) 250)))"
  define base where "base = js_mul (js_mul (estimatedTimePerPound profile m) w) adjustment"
  define total where "total = (if stallRange profile \<noteq> None then js_add base 60 else base)"
  have b: "baseTemp m = baseline"
    unfolding baseline_def by (rule baseTemp_cases)
  have adj: "tempAdjustment m (Some st) = adjustment"
    unfolding adjustment_def b [symmetric] using assms(3) by (rule tempAdjustment_supplied)
  have cm: "cookMinutes profile w m (Some st) = total"
    unfolding cookMinutes_def adj Let_def total_def base_def ..
  have est: "\<exists>e. estimateCookTime K pid w m (Some st) now = Inr e
                \<and> totalMinutes e = real_of_int (round total)"
    using assms(2)
    by (simp add: estimateCookTime_def getProteinProfile_own [OF assms(1)] Let_def cm)
  have one: "tempAdjustment m (Some baseline) = 1"
    unfolding b [symmetric] by (rule tempAdjustment_baseline)
  have same: "cookMinutes profile w m (Some baseline) = cookMinutes profile w m None"
    by (simp add: cookMinutes_def one tempAdjustment_absent)
  have eq: "estimateCookTime K pid w m (Some baseline) now = estimateCookTime K pid w m None now"
    unfolding estimateCookTime_def getProteinProfile_own [OF assms(1)] lookup.case same ..
  have "tempAdjustment m (Some st) = adjustment
        \<and> cookMinutes profile w m (Some st) = total
        \<and> (\<exists>e. estimateCookTime K pid w m (Some st) now = Inr e
               \<and> totalMinutes e = real_of_int (round total))
        \<and> tempAdjustment m (Some baseline) = 1
        \<and> estimateCookTime K pid w m (Some baseline) now
            = estimateCookTime K pid w m None now"
    using adj cm est one eq by blast
  then show ?thesis
    unfolding Let_def total_def base_def adjustment_def baseline_def .
qed

theorem smoker_adjustment_witness:
  "PROTEIN_PROFILES sample_constants ''beef_brisket'' = Some sample_brisket
   \<and> estimatedTimePerPound sample_brisket smoke_low_slow \<noteq> 0
   \<and> (300::real) \<noteq> 0
   \<and> tempAdjustment smoke_low_slow (Some 300) = 3152519739159347 / 2 ^ 52
   \<and> cookMinutes sample_brisket (37 / 2) smoke_low_slow (Some 300)
       = 8501423905964031 / 2 ^ 43
   \<and> (\<exists>e. estimateCookTime sample_constants ''beef_brisket'' (37 / 2) smoke_low_slow
               (Some 300) 0 = Inr e
          \<and> totalMinutes e = 966)
   \<and> round (70 * (37 / 2) * (1 - (300 - 225) / 250) + 60 :: real) = 967"
proof -
  have h: "estimatedTimePerPound sample_brisket smoke_low_slow \<noteq> 0"
    by (simp add: sample_brisket_def)
  have s: "stallRange sample_brisket \<noteq> None"
      "estimatedTimePerPound sample_brisket smoke_low_slow = 70"
    by (simp_all add: sample_brisket_def)
  have nz: "(300::real) \<noteq> 0" by simp
  have d: "js_sub 300 225 = 75"
    by (simp add: js_sub_def)
  have p: "js_mul 70 (37 / 2) = 1295"
    by (simp add: js_mul_def)
  have r: "round (8501423905964031 / 2 ^ 43 :: real) = 966"
    by (rule round_unique') simp
  have x: "round (1933 / 2 :: real) = 967"
    by (simp add: round_def)
  show ?thesis
    using smoker_adjustment [OF sample_lookup(1) h nz, of "37 / 2" 0] sample_lookup(1) h r x
    by (auto simp add: Let_def s d p cook_example_1 cook_example_2 cook_example_3
        cook_example_4)
qed

text \<open>
  C3 as stated does not hold for every supplied smoker temperature: a supplied 0 is
  treated as absent (\<open>if (smokerTemp)\<close>), so the adjustment is 1 where the formula
  gives the clamped value 1.5.
\<close>

theorem smoker_adjustment_counterexample:
  "estimatedTimePerPound sample_brisket smoke_low_slow \<noteq> 0
   \<and> tempAdjustment smoke_low_slow (Some 0) = 1
   \<and> max (1 / 2) (min (3 / 2) (1 - (0 - 225) / 250)) = (3 / 2 :: real)
   \<and> map_sum id totalMinutes
        (estimateCookTime sample_constants ''beef_brisket'' 14 smoke_low_slow (Some 0) 0)
       = Inr 1040
   \<and> real_of_int (round (70 * 14 * (3 / 2) + 60 :: real)) = 1530"
proof -
  have r: "round (1530 :: real) = 1530" "round (1040 :: real) = 1040"
    by simp_all
  have mpp: "estimatedTimePerPound sample_brisket smoke_low_slow \<noteq> 0"
    by (simp add: sample_brisket_def)
  have total: "cookMinutes sample_brisket 14 smoke_low_slow (Some 0) = 1040"
    by (simp add: cookMinutes_def tempAdjustment_def sample_brisket_def
        js_mul_def js_add_def)
  have est: "map_sum id totalMinutes
        (estimateCookTime sample_constants ''beef_brisket'' 14 smoke_low_slow (Some 0) 0)
       = Inr 1040"
    using mpp
    by (simp add: estimateCookTime_def getProteinProfile_own [OF sample_lookup(1)] total
        Let_def r)
  show ?thesis
    using mpp est by (simp add: tempAdjustment_def r)
qed

section \<open>C4: a method with zero minutes per pound\<close>

text \<open>
  C4. For a protein of the knowledge base and a cook method whose minutes-per-pound
  entry is exactly zero, \<open>estimateCookTime\<close> does not fail and computes nothing further:
  it returns \<open>totalMinutes = 0\<close>, confidence low, no assumptions, the clock value
  unchanged, and the single warning that the method is not recommended for the protein.
\<close>

theorem zero_rate_estimate:
  assumes "PROTEIN_PROFILES K pid = Some profile"
      and "estimatedTimePerPound profile m = 0"
  shows "estimateCookTime K pid w m st now =
           Inr \<lparr>totalMinutes = 0, hoursAndMinutes = NotRecommended, estimatedDoneTime = now,
                confidence = Low, assumptions = [],
                warnings = [methodDisplayName (COOK_METHOD_INFO K m)
                              @ '' is not recommended for '' @ displayName profile]\<rparr>"
  using assms by (simp add: estimateCookTime_def getProteinProfile_own)

theorem zero_rate_estimate_witness:
  "PROTEIN_PROFILES sample_constants ''beef_brisket'' = Some sample_brisket
   \<and> estimatedTimePerPound sample_brisket grill_direct = 0
   \<and> estimateCookTime sample_constants ''beef_brisket'' 14 grill_direct (Some 225) 12345 =
       Inr \<lparr>totalMinutes = 0, hoursAndMinutes = NotRecommended, estimatedDoneTime = 12345,
            confidence = Low, assumptions = [],
            warnings = [''grill_direct is not recommended for Beef Brisket'']\<rparr>"
proof -
  have h: "estimatedTimePerPound sample_brisket grill_direct = 0"
    by (simp add: sample_brisket_def)
  have n: "methodDisplayName (COOK_METHOD_INFO sample_constants grill_direct) = ''grill_direct''"
      "displayName sample_brisket = ''Beef Brisket''"
    by (simp_all add: sample_constants_def sample_brisket_def)
  show ?thesis
    using zero_rate_estimate [OF sample_lookup(1) h, of 14 "Some 225" 12345] sample_lookup(1) h
    by (simp add: n)
qed

section \<open>C5: the trend of analyzeTemperature\<close>

text \<open>
  C5. With at least two prior readings and a protein of the knowledge base,
  \<open>analyzeTemperature\<close> returns a result whose trend comes from the last five readings
  at most (oldest first): with \<open>hours\<close> the time from the first to the last of them and
  \<open>rate = (lastTemp - firstTemp) / hours\<close>, both as the source computes them, \<open>hours\<close>
  is positive exactly when the last timestamp is later than the first; if
  \<open>hours \<le> 0\<close> the trend is stable with rate 0; otherwise the reported rate is \<open>rate\<close>
  rounded to one decimal (\<open>Math.round(rate * 10) / 10\<close>), \<open>|rate| < 2\<close> gives stalled
  when the current temperature is inside the stall range, bounds included, and stable
  otherwise, \<open>rate \<ge> 2\<close> gives rising and \<open>rate \<le> -2\<close> gives falling.
\<close>

theorem trend_classification:
  assumes "PROTEIN_PROFILES K pid = Some profile" and "2 \<le> length rs"
  shows "(let recent = drop (length rs - 5) rs;
              hours = js_quot (js_sub (real_of_int (timestamp (last recent)))
                                      (real_of_int (timestamp (hd recent)))) 3600000;
              rate = js_quot (js_sub (temp (last recent)) (temp (hd recent))) hours;
              inRange = (\<exists>z. stallRange profile = Some z
                              \<and> range_start z \<le> cur \<and> cur \<le> range_end z)
          in length recent = min 5 (length rs)
             \<and> (0 < hours \<longleftrightarrow> timestamp (hd recent) < timestamp (last recent))
             \<and> (\<exists>a. analyzeTemperature K cur tgt pid cm cst (Some rs) = Inr a
                  \<and> (hours \<le> 0 \<longrightarrow> trend a = Stable \<and> trendRatePerHour a = 0)
                  \<and> (0 < hours \<longrightarrow>
                        trendRatePerHour a
                          = js_quot (real_of_int (round (js_mul rate 10))) 10)
                  \<and> (0 < hours \<and> \<bar>rate\<bar> < 2 \<longrightarrow>
                        trend a = (if inRange then Stalled else Stable))
                  \<and> (0 < hours \<and> 2 \<le> rate \<longrightarrow> trend a = Rising)
                  \<and> (0 < hours \<and> rate \<le> - 2 \<longrightarrow> trend a = Falling)))"
proof -
  define recent where "recent = drop (length rs - 5) rs"
  define hours where
    "hours = js_quot (js_sub (real_of_int (timestamp (last recent)))
                             (real_of_int (timestamp (hd recent)))) 3600000"
  define rate where "rate = js_quot (js_sub (temp (last recent)) (temp (hd recent))) hours"
  define inRange where
    "inRange = (\<exists>z. stallRange profile = Some z \<and> range_start z \<le> cur \<and> cur \<le> range_end z)"
  have tr: "trendOf (stallRange profile) cur (Some rs) =
      (if 0 < hours then
         (if \<bar>rate\<bar> < 2 then (if inRange then Stalled else Stable)
          else if 0 < rate then Rising else Falling, rate)
       else (Stable, 0))"
    unfolding trendOf_readings [OF assms(2)] Let_def recent_def hours_def rate_def
      inRange_def inStallRange_iff ..
  have len: "length recent = min 5 (length rs)"
    unfolding recent_def by auto
  have sign: "0 < hours \<longleftrightarrow> timestamp (hd recent) < timestamp (last recent)"
    unfolding hours_def span_pos_iff by (simp add: zero_less_divide_iff)
  obtain a where a: "analyzeTemperature K cur tgt pid cm cst (Some rs) = Inr a"
      "trend a = fst (trendOf (stallRange profile) cur (Some rs))"
      "trendRatePerHour a = round1 (snd (trendOf (stallRange profile) cur (Some rs)))"
    using analyzeTemperature_trend [OF assms(1)] by blast
  have c1: "hours \<le> 0 \<longrightarrow> trend a = Stable \<and> trendRatePerHour a = 0"
    by (simp add: a tr round1_0)
  have c2: "0 < hours \<longrightarrow>
      trendRatePerHour a = js_quot (real_of_int (round (js_mul rate 10))) 10"
    by (simp add: a tr round1_def)
  have c3: "0 < hours \<and> \<bar>rate\<bar> < 2 \<longrightarrow> trend a = (if inRange then Stalled else Stable)"
    by (simp add: a tr)
  have c4: "0 < hours \<and> 2 \<le> rate \<longrightarrow> trend a = Rising"
    using rate_bands(1) [of rate] by (simp add: a tr)
  have c5: "0 < hours \<and> rate \<le> - 2 \<longrightarrow> trend a = Falling"
    using rate_bands(2) [of rate] by (simp add: a tr)
  have "length recent = min 5 (length rs)
        \<and> (0 < hours \<longleftrightarrow> timestamp (hd recent) < timestamp (last recent))
        \<and> (\<exists>a. analyzeTemperature K cur tgt pid cm cst (Some rs) = Inr a
             \<and> (hours \<le> 0 \<longrightarrow> trend a = Stable \<and> trendRatePerHour a = 0)
             \<and> (0 < hours \<longrightarrow>
                   trendRatePerHour a = js_quot (real_of_int (round (js_mul rate 10))) 10)
             \<and> (0 < hours \<and> \<bar>rate\<bar> < 2 \<longrightarrow> trend a = (if inRange then Stalled else Stable))
             \<and> (0 < hours \<and> 2 \<le> rate \<longrightarrow> trend a = Rising)
             \<and> (0 < hours \<and> rate \<le> - 2 \<longrightarrow> trend a = Falling))"
    using len sign a(1) c1 c2 c3 c4 c5 by blast
  then show ?thesis
    unfolding Let_def recent_def hours_def rate_def inRange_def .
qed

theorem trend_classification_witness:
  "PROTEIN_PROFILES sample_constants ''beef_brisket'' = Some sample_brisket
   \<and> 2 \<le> length [reading 161 0, reading 150 10560000]
   \<and> (\<exists>a. analyzeTemperature sample_constants 150 203 ''beef_brisket'' None None
              (Some [reading 161 0, reading 150 10560000]) = Inr a
          \<and> trend a = Falling \<and> trendRatePerHour a = js_quot (- 38) 10)"
proof -
  have len: "2 \<le> length [reading 161 0, reading 150 10560000]"
    by simp
  have t: "js_sub 10560000 0 = 10560000" "js_sub 150 161 = - 11"
    by (simp_all add: js_sub_def)
  have r: "round (- (5277655813324801 / 2 ^ 47) :: real) = - 38"
    by (rule round_unique') simp
  show ?thesis
    using trend_classification [OF sample_lookup(1) len, of 150 203 None None]
      sample_lookup(1) r
    by (auto simp add: Let_def reading_def t trend_example_1 trend_example_2
        trend_example_3)
qed

section \<open>C6: the cases of detectStall\<close>

text \<open>
  C6, as amended. For a protein of the knowledge base: without a stall range the result
  is not stalled with zero duration; with the current temperature strictly below or
  strictly above the range the result is not stalled with zero duration; and with the
  current temperature inside the range, bounds included, at least 3 readings among the
  last 6, and the last of them later than the first, the time span is positive and the
  result is stalled exactly when \<open>(\<Delta>temp / \<Delta>minutes) * 60 < 3\<close>, the rate as the source
  computes it.
\<close>

theorem detectStall_cases:
  assumes "PROTEIN_PROFILES K pid = Some profile"
  shows "(stallRange profile = None \<longrightarrow>
            (\<exists>r. detectStall K pid cur rs now = Inr r
                 \<and> \<not> isStalled r \<and> stallDurationMinutes r = 0))
       \<and> (\<forall>z. stallRange profile = Some z \<and> (cur < range_start z \<or> range_end z < cur) \<longrightarrow>
            (\<exists>r. detectStall K pid cur rs now = Inr r
                 \<and> \<not> isStalled r \<and> stallDurationMinutes r = 0))
       \<and> (\<forall>z. stallRange profile = Some z \<and> range_start z \<le> cur \<and> cur \<le> range_end z \<longrightarrow>
            (let recent = drop (length rs - 6) rs;
                 dtemp = js_sub (temp (last recent)) (temp (hd recent));
                 dmin = js_quot (js_sub (real_of_int (timestamp (last recent)))
                                        (real_of_int (timestamp (hd recent)))) 60000
             in 3 \<le> length recent \<and> timestamp (hd recent) < timestamp (last recent) \<longrightarrow>
                  0 < dmin
                  \<and> (\<exists>r. detectStall K pid cur rs now = Inr r
                         \<and> (isStalled r \<longleftrightarrow> js_mul (js_quot dtemp dmin) 60 < 3))))"
proof (intro conjI allI impI)
  assume "stallRange profile = None"
  then show "\<exists>r. detectStall K pid cur rs now = Inr r
                 \<and> \<not> isStalled r \<and> stallDurationMinutes r = 0"
    using detectStall_no_range [OF assms] by simp
next
  fix z
  assume "stallRange profile = Some z \<and> (cur < range_start z \<or> range_end z < cur)"
  then show "\<exists>r. detectStall K pid cur rs now = Inr r
                 \<and> \<not> isStalled r \<and> stallDurationMinutes r = 0"
    using detectStall_outside [OF assms, of z cur rs now] by blast
next
  fix z
  assume z: "stallRange profile = Some z \<and> range_start z \<le> cur \<and> cur \<le> range_end z"
  define recent where "recent = drop (length rs - 6) rs"
  define dtemp where "dtemp = js_sub (temp (last recent)) (temp (hd recent))"
  define dmin where
    "dmin = js_quot (js_sub (real_of_int (timestamp (last recent)))
                            (real_of_int (timestamp (hd recent)))) 60000"
  have "3 \<le> length recent \<and> timestamp (hd recent) < timestamp (last recent) \<longrightarrow>
          0 < dmin
          \<and> (\<exists>r. detectStall K pid cur rs now = Inr r
                 \<and> (isStalled r \<longleftrightarrow> js_mul (js_quot dtemp dmin) 60 < 3))"
  proof
    assume h: "3 \<le> length recent \<and> timestamp (hd recent) < timestamp (last recent)"
    then have ne: "recent \<noteq> []" by auto
    have pos: "0 < dmin"
      using h unfolding dmin_def span_pos_iff by (simp add: zero_less_divide_iff)
    have rate: "tempRatePerHour recent = js_mul (js_quot dtemp dmin) 60"
      using pos unfolding tempRatePerHour_readings [OF ne] Let_def dtemp_def dmin_def
      by (simp only: if_True)
    have len: "3 \<le> length (slice_last 6 rs)"
      using h unfolding slice_last_def recent_def by blast
    obtain r where "detectStall K pid cur rs now = Inr r"
        "isStalled r = (tempRatePerHour (slice_last 6 rs) < 3)"
      using detectStall_inside [OF assms _ _ _ len, of z cur now] z by blast
    then have "\<exists>r. detectStall K pid cur rs now = Inr r
               \<and> (isStalled r \<longleftrightarrow> js_mul (js_quot dtemp dmin) 60 < 3)"
      using rate unfolding slice_last_def recent_def by auto
    with pos show "0 < dmin
          \<and> (\<exists>r. detectStall K pid cur rs now = Inr r
                 \<and> (isStalled r \<longleftrightarrow> js_mul (js_quot dtemp dmin) 60 < 3))"
      by blast
  qed
  then show "let recent = drop (length rs - 6) rs;
                 dtemp = js_sub (temp (last recent)) (temp (hd recent));
                 dmin = js_quot (js_sub (real_of_int (timestamp (last recent)))
                                        (real_of_int (timestamp (hd recent)))) 60000
             in 3 \<le> length recent \<and> timestamp (hd recent) < timestamp (last recent) \<longrightarrow>
                  0 < dmin
                  \<and> (\<exists>r. detectStall K pid cur rs now = Inr r
                         \<and> (isStalled r \<longleftrightarrow> js_mul (js_quot dtemp dmin) 60 < 3))"
    unfolding Let_def recent_def dtemp_def dmin_def .
qed

theorem detectStall_cases_witness:
  "PROTEIN_PROFILES sample_constants ''beef_brisket'' = Some sample_brisket
   \<and> PROTEIN_PROFILES sample_constants ''chicken_breast'' = Some sample_chicken
   \<and> stallRange sample_brisket = Some \<lparr>range_start = 150, range_end = 175\<rparr>
   \<and> stallRange sample_chicken = None
   \<and> (\<exists>r. detectStall sample_constants ''chicken_breast'' 157 [] 0 = Inr r
          \<and> \<not> isStalled r \<and> stallDurationMinutes r = 0)
   \<and> (\<exists>r. detectStall sample_constants ''beef_brisket'' 140 [] 0 = Inr r
          \<and> \<not> isStalled r \<and> stallDurationMinutes r = 0)
   \<and> (\<exists>r. detectStall sample_constants ''beef_brisket'' 151
              [reading 150 0, reading 150 360000, reading (fl64 (753 / 5)) 720000]
              720000 = Inr r
          \<and> isStalled r)"
proof -
  have z: "stallRange sample_brisket = Some \<lparr>range_start = 150, range_end = 175\<rparr>"
    by (simp add: sample_brisket_def)
  have n: "stallRange sample_chicken = None"
    by (simp add: sample_chicken_def)
  note none = detectStall_cases [OF sample_lookup(2), of 157 "[]" 0]
  note below = detectStall_cases [OF sample_lookup(1), of 140 "[]" 0]
  note inside = detectStall_cases [OF sample_lookup(1), of 151
      "[reading 150 0, reading 150 360000, reading (fl64 (753 / 5)) 720000]" 720000]
  have c: "\<exists>r. detectStall sample_constants ''chicken_breast'' 157 [] 0 = Inr r
          \<and> \<not> isStalled r \<and> stallDurationMinutes r = 0"
    using none n by simp
  have a: "\<exists>r. detectStall sample_constants ''beef_brisket'' 140 [] 0 = Inr r
          \<and> \<not> isStalled r \<and> stallDurationMinutes r = 0"
    using below z by simp
  have t: "js_sub 720000 0 = 720000" "js_quot 720000 60000 = 12"
    by (simp_all add: js_sub_def js_quot_def)
  have b: "\<exists>r. detectStall sample_constants ''beef_brisket'' 151
              [reading 150 0, reading 150 360000, reading (fl64 (753 / 5)) 720000]
              720000 = Inr r
          \<and> isStalled r"
    using inside z
    by (simp add: Let_def reading_def t stall_example_1 stall_example_2 stall_example_3
        stall_example_4)
  from a b c z n sample_lookup(1,2) show ?thesis by blast
qed

text \<open>
  C6 as stated does not hold when the readings are not in chronological order: with the
  three readings below, \<open>\<Delta>temp = -10\<close> and \<open>\<Delta>minutes = -120\<close>, so
  \<open>(\<Delta>temp / \<Delta>minutes) * 60 = 5\<close>, which is not below 3, yet the result is stalled,
  because the source replaces the rate by 0 when the time span is not positive.
\<close>

theorem detectStall_counterexample:
  "detectStall sample_constants ''beef_brisket'' 155
     [reading 160 7200000, reading 158 3600000, reading 150 0] 7200000
     = Inr \<lparr>isStalled = True, stallDurationMinutes = 0, inStallZone = True,
            recommendation = StallDetected\<rparr>
   \<and> \<not> ((temp (reading 150 0) - temp (reading 160 7200000))
          / (real_of_int (timestamp (reading 150 0) - timestamp (reading 160 7200000)) / 60000)
          * 60 < 3)"
proof -
  have rate: "tempRatePerHour [reading 160 7200000, reading 158 3600000, reading 150 0] = 0"
    by (simp add: tempRatePerHour_def reading_def Let_def js_sub_def js_quot_def)
  have zone: "stallRange sample_brisket = Some \<lparr>range_start = 150, range_end = 175\<rparr>"
    by (simp add: sample_brisket_def)
  have "detectStall sample_constants ''beef_brisket'' 155
     [reading 160 7200000, reading 158 3600000, reading 150 0] 7200000
     = Inr \<lparr>isStalled = True, stallDurationMinutes = 0, inStallZone = True,
            recommendation = StallDetected\<rparr>"
    using rate
    by (simp add: detectStall_def getProteinProfile_own [OF sample_lookup(1)] zone
        slice_last_def Let_def)
       (simp add: reading_def js_sub_def js_quot_def)
  then show ?thesis
    by (simp add: reading_def)
qed

section \<open>C7: percentComplete\<close>

text \<open>
  For a target other than 40 the division is an ordinary one, and the returned value is
  the clamped percentage rounded to a tenth, in the arithmetic of the source. At 63
  degrees of a target of 120 the percentage is \<open>28.749999999999996\<close> and the
  returned value is the number 28.7.
\<close>

lemma percent_complete_formula:
  assumes "PROTEIN_PROFILES K pid = Some profile" and "tgt \<noteq> 40"
  shows "\<exists>a. analyzeTemperature K cur tgt pid cm cst rs = Inr a
           \<and> percentComplete a
               = Fin (round1 (min 100 (max 0
                   (js_mul (js_quot (js_sub cur 40) (js_sub tgt 40)) 100))))"
  using assms
  by (simp add: analyzeTemperature_def getProteinProfile_own analysis_def Let_def
      percentCompleteOf_def js_div_def js_sub_def)

lemma percent_complete_rounding:
  "map_sum id percentComplete
     (analyzeTemperature sample_constants 63 120 ''beef_brisket'' None None None)
     = Inr (Fin (js_quot 287 10))"
proof -
  have t: "js_sub 63 40 = 23" "js_sub 120 40 = 80"
    by (simp_all add: js_sub_def)
  have r: "round (5057753487769599 / 2 ^ 44 :: real) = 287"
    by (rule round_unique') simp
  have "percentCompleteOf 63 120 = Fin (8092405580431359 / 2 ^ 48)"
    by (simp add: percentCompleteOf_def js_div_def t percent_example_1 percent_example_2)
  then have "round_tenth (percentCompleteOf 63 120) = Fin (js_quot 287 10)"
    using r by (simp add: round1_def percent_example_3)
  then show ?thesis
    by (simp add: analyzeTemperature_def getProteinProfile_own [OF sample_lookup(1)]
        analysis_def Let_def)
qed

text \<open>
  C7. The claim requires \<open>percentComplete\<close> to lie between 0 and 100 for every current
  and target temperature. At \<open>currentTemp = targetTemp = 40\<close> the source divides 0 by
  0: the quotient is NaN, \<open>Math.max\<close> and \<open>Math.min\<close> pass it on, and the returned
  \<open>percentComplete\<close> is NaN.
\<close>

theorem percent_complete_nan:
  "map_sum id percentComplete
     (analyzeTemperature sample_constants 40 40 ''beef_brisket'' None None None) = Inr NaN"
  by (simp add: analyzeTemperature_def getProteinProfile_own [OF sample_lookup(1)]
      analysis_def Let_def percentCompleteOf_def js_div_def js_sub_def)

section \<open>C8: the default doneness and the pull temperature\<close>



section \<open>C10: a time span that is not positive\<close>

text \<open>
  C10. In \<open>detectStall\<close>, for a protein of the knowledge base, with the current
  temperature inside the stall range, bounds included, and at least 3 readings among
  the last 6, if the time from the first to the last of those readings is zero or
  negative then the rate is 0 and the result is stalled, in the stall zone.
\<close>

theorem zero_span_is_stall:
  assumes "PROTEIN_PROFILES K pid = Some profile" and "stallRange profile = Some z"
      and "range_start z \<le> cur" and "cur \<le> range_end z"
      and "3 \<le> length (drop (length rs - 6) rs)"
      and "timestamp (last (drop (length rs - 6) rs))
             - timestamp (hd (drop (length rs - 6) rs)) \<le> 0"
  shows "tempRatePerHour (drop (length rs - 6) rs) = 0
       \<and> (\<exists>r. detectStall K pid cur rs now = Inr r \<and> isStalled r \<and> inStallZone r)"
proof -
  define recent where "recent = drop (length rs - 6) rs"
  have ne: "recent \<noteq> []" using assms(5) unfolding recent_def by auto
  have "\<not> 0 < js_quot (js_sub (real_of_int (timestamp (last recent)))
                               (real_of_int (timestamp (hd recent)))) 60000"
    using assms(6) unfolding recent_def span_pos_iff by (simp add: zero_less_divide_iff)
  then have rate: "tempRatePerHour recent = 0"
    unfolding tempRatePerHour_readings [OF ne] Let_def by (simp only: if_False)
  have len: "3 \<le> length (slice_last 6 rs)"
    using assms(5) unfolding slice_last_def .
  obtain r where "detectStall K pid cur rs now = Inr r"
      "isStalled r = (tempRatePerHour (slice_last 6 rs) < 3)" "inStallZone r"
    using detectStall_inside [OF assms(1-4) len] by blast
  then have "\<exists>r. detectStall K pid cur rs now = Inr r \<and> isStalled r \<and> inStallZone r"
    using rate unfolding slice_last_def recent_def by auto
  then show ?thesis
    using rate unfolding recent_def by simp
qed

theorem zero_span_is_stall_witness:
  "PROTEIN_PROFILES sample_constants ''beef_brisket'' = Some sample_brisket
   \<and> stallRange sample_brisket = Some \<lparr>range_start = 150, range_end = 175\<rparr>
   \<and> tempRatePerHour [reading 155 0, reading 156 0, reading 157 0] = 0
   \<and> (\<exists>r. detectStall sample_constants ''beef_brisket'' 157
              [reading 155 0, reading 156 0, reading 157 0] 600000 = Inr r
          \<and> isStalled r \<and> inStallZone r)"
proof -
  have z: "stallRange sample_brisket = Some \<lparr>range_start = 150, range_end = 175\<rparr>"
    by (simp add: sample_brisket_def)
  have lo: "range_start \<lparr>range_start = 150, range_end = 175\<rparr> \<le> (157::real)"
    and hi: "(157::real) \<le> range_end \<lparr>range_start = 150, range_end = 175\<rparr>"
    by simp_all
  have len: "3 \<le> length (drop (length [reading 155 0, reading 156 0, reading 157 0] - 6)
                            [reading 155 0, reading 156 0, reading 157 0])"
    by simp
  have span: "timestamp (last (drop (length [reading 155 0, reading 156 0, reading 157 0] - 6)
                                [reading 155 0, reading 156 0, reading 157 0]))
              - timestamp (hd (drop (length [reading 155 0, reading 156 0, reading 157 0] - 6)
                                [reading 155 0, reading 156 0, reading 157 0])) \<le> 0"
    by (simp add: reading_def)
  show ?thesis
    using zero_span_is_stall [OF sample_lookup(1) z lo hi len span, of 600000]
      sample_lookup(1) z
    by simp
qed

end
